theory Spec2Isabelle
  imports Main "HOL-Library.Sublist" "HOL-Library.Monad_Syntax"
begin

section \<open>Scope\<close>

text \<open>
  The plugin decides, for a new message or a new relationship of the host chat client,
  whether a toast notification is shown, and formats it. The source holds two revisions
  of it. The spec takes its rules from the later one; the definitions below embed the
  later revision first, function by function, and then the message handling of the
  earlier revision, each under the source text it is taken from. The earlier revision
  differs from the later one in the handling of a message: its guild branch comes before
  the tests on the author and on the selected channel, it has no notification levels and
  no redaction, it replaces emote tokens in a loop over the matches, and its inline
  mention replacement has no step for the text behind the last token.
\<close>

section \<open>Strings of the host language\<close>

text \<open>
  A JavaScript string is modelled as a \<^typ>\<open>string\<close>, one \<^typ>\<open>char\<close> per code unit.
  \<open>s.length\<close> is \<^const>\<open>length\<close>, \<open>s.substring(0, n)\<close> is \<^term>\<open>take n s\<close> and string
  concatenation is \<open>@\<close>.
\<close>

text \<open>\<open>s.slice(a, b)\<close> for indices \<open>0 \<le> a\<close>, \<open>0 \<le> b\<close>: empty when \<open>b \<le> a\<close>, cut at the
  end of the string.\<close>

definition slice :: "string \<Rightarrow> nat \<Rightarrow> nat \<Rightarrow> string" where
  "slice s a b = take (b - a) (drop a s)"

section \<open>Regular expressions of the source, matched at the head of a string\<close>

text \<open>
  The character classes \<open>\d\<close> and \<open>\w\<close> of a JavaScript regular expression without the
  unicode flag.
\<close>

definition is_digit :: "char \<Rightarrow> bool" where
  "is_digit c = (c \<in> set ''0123456789'')"

definition is_word :: "char \<Rightarrow> bool" where
  "is_word c =
     (c \<in> set ''abcdefghijklmnopqrstuvwxyzABCDEFGHIJKLMNOPQRSTUVWXYZ0123456789_'')"

text \<open>
  A pattern is matched at the head of a string by going through its items from left to
  right; each item takes the string that is left and gives back what remains behind its
  match, or \<open>None\<close>. \<open>lit c\<close> is the one-character item \<open>c\<close>, \<open>many1 P\<close> is a greedy
  \<open>[P]+\<close>. Backtracking into \<open>\w+\<close> or \<open>\d+\<close> never helps in the patterns of the
  source: the character after a shorter run is a word character (a digit), never the
  \<open>:\<close> or \<open>>\<close> that the pattern asks for next; so the greedy run is the only candidate.
\<close>

definition lit :: "char \<Rightarrow> string \<Rightarrow> string option" where
  "lit c s = (case s of [] \<Rightarrow> None | x # r \<Rightarrow> if x = c then Some r else None)"

definition many1 :: "(char \<Rightarrow> bool) \<Rightarrow> string \<Rightarrow> string option" where
  "many1 P s = (if takeWhile P s = [] then None else Some (dropWhile P s))"

text \<open>The first alternative that matches wins.\<close>

definition orelse :: "'a option \<Rightarrow> 'a option \<Rightarrow> 'a option" where
  "orelse a b = (case a of Some x \<Rightarrow> Some x | None \<Rightarrow> b)"

text \<open>The text a match has taken from \<open>s\<close> when \<open>rest\<close> remains.\<close>

definition matched :: "string \<Rightarrow> string \<Rightarrow> string" where
  "matched s rest = take (length s - length rest) s"

text \<open>\<open>:\w+:\d+>\<close> at the head of \<open>s\<close>.\<close>

definition emote_tail :: "string \<Rightarrow> string option" where
  "emote_tail s =
     lit CHR '':'' s \<bind> many1 is_word \<bind> lit CHR '':'' \<bind> many1 is_digit \<bind> lit CHR ''>''"

text \<open>
  \<open>(<a?:\w+:\d+>)\<close> at the head of \<open>s\<close>, giving the matched text: \<open>a?\<close> first takes an
  \<open>a\<close> when there is one, and the matcher falls back to taking none when the rest fails.
\<close>

definition emote_at :: "string \<Rightarrow> string option" where
  "emote_at s =
     map_option (matched s)
       (lit CHR ''<'' s \<bind> (\<lambda>r. orelse (lit CHR ''a'' r \<bind> emote_tail) (emote_tail r)))"

text \<open>
  \<open>s.replace(rx, f)\<close> for a global pattern \<open>rx\<close> and a replacer function \<open>f\<close> of the
  matched text: the string is scanned from the left, every match is replaced by \<open>f\<close> of
  it and the scan goes on behind the match; a character where nothing matches is kept.
  After an empty match the engine steps over one character, which is kept.
\<close>

function replace_global :: "(string \<Rightarrow> string option) \<Rightarrow> (string \<Rightarrow> string) \<Rightarrow> string \<Rightarrow> string"
  where
  "replace_global rx f [] = (case rx [] of Some m \<Rightarrow> f m | None \<Rightarrow> [])"
| "replace_global rx f (c # cs) =
     (case rx (c # cs) of
        None \<Rightarrow> c # replace_global rx f cs
      | Some m \<Rightarrow>
          if m = [] then f m @ c # replace_global rx f cs
          else f m @ replace_global rx f (drop (length m) (c # cs)))"
  by pat_completeness auto
termination
  by (relation "measure (\<lambda>(rx, f, s). length s)") auto

text \<open>\<open>s.split(d)\<close> for a one-character separator.\<close>

fun split_on :: "char \<Rightarrow> string \<Rightarrow> string list" where
  "split_on d [] = [[]]"
| "split_on d (c # cs) =
     (if c = d then [] # split_on d cs
      else (case split_on d cs of
              [] \<Rightarrow> [[c]]
            | x # xs \<Rightarrow> (c # x) # xs))"

text \<open>\<open>`${xs[i]}`\<close>: an index past the end reads \<open>undefined\<close>, printed as such.\<close>

definition index_str :: "string list \<Rightarrow> nat \<Rightarrow> string" where
  "index_str xs i = (if i < length xs then xs ! i else ''undefined'')"

section \<open>Emote normalization\<close>

text \<open>
  \<^verbatim>\<open>
  function formatEmotes(body: string): string {
      return body.replace(/(<a?:\w+:\d+>)/g, match => `:${match.split(":")[1]}:`);
  }
  \<close>
\<close>

definition formatEmotes :: "string \<Rightarrow> string" where
  "formatEmotes body =
     replace_global emote_at (\<lambda>match. '':'' @ index_str (split_on CHR '':'' match) 1 @ '':'') body"

text \<open>The two forms of a custom-emote token.\<close>

definition emote_token :: "bool \<Rightarrow> string \<Rightarrow> string \<Rightarrow> string" where
  "emote_token animated name eid =
     (if animated then ''<a:'' else ''<:'') @ name @ '':'' @ eid @ ''>''"

section \<open>Truncation of the body\<close>

text \<open>
  \<^verbatim>\<open>
  function limitMessageLength(body: string, hasAttachments: boolean): string {
      if (hasAttachments && body?.length > 30) return body.substring(0, 27) + "...";
      if (body?.length > 165) return body.substring(0, 162) + "...";
      return body;
  }
  \<close>
\<close>

definition limitMessageLength :: "string \<Rightarrow> bool \<Rightarrow> string" where
  "limitMessageLength body hasAttachments =
     (if hasAttachments \<and> length body > 30 then take 27 body @ ''...''
      else if length body > 165 then take 162 body @ ''...''
      else body)"

section \<open>Data of the host application\<close>

text \<open>
  The entities below are owned by the host; the module only reads them. A field that the
  source reads through \<open>?.\<close> or tests for presence is an \<open>option\<close>.
\<close>

record user =
  user_id :: string
  username :: string
  avatar :: string

record role =
  role_name :: string

record guild =
  getRole :: "string \<Rightarrow> role option"

record channel =
  channel_id :: string
  guild_id :: "string option"
  channel_name :: "string option"
  rawRecipients :: "user list option"
  isDM :: bool
  isGroupDM :: bool

text \<open>\<open>enum StreamingTreatment { NORMAL = 0, NO_CONTENT = 1, IGNORE = 2 }\<close>\<close>

datatype StreamingTreatment = NORMAL | NO_CONTENT | IGNORE

text \<open>
  \<open>enum NotificationLevel { ALL_MESSAGES = 0, ONLY_MENTIONS = 1, NO_MESSAGES = 2 }\<close>.
  A level is a number read from the settings store of the host, so it is kept as one.
\<close>

type_synonym NotificationLevel = int

definition ALL_MESSAGES :: NotificationLevel where "ALL_MESSAGES = 0"
definition ONLY_MENTIONS :: NotificationLevel where "ONLY_MENTIONS = 1"
definition NO_MESSAGES :: NotificationLevel where "NO_MESSAGES = 2"

text \<open>
  An entry of \<open>channel_overrides\<close>: \<open>override_message_notifications\<close> is \<open>None\<close> when the
  object has no key \<open>message_notifications\<close>.
\<close>

record channel_override =
  override_message_notifications :: "NotificationLevel option"

text \<open>
  The per-guild settings object: \<open>channel_overrides\<close> may be missing, and
  \<open>message_notifications\<close> is \<open>Some n\<close> exactly when it is a number.
\<close>

record user_guild_settings =
  channel_overrides :: "(string \<Rightarrow> channel_override option) option"
  message_notifications :: "NotificationLevel option"

text \<open>
  The state an event handler reads: the settings of the plugin, its two id lists
  (\<open>ignoredUsers\<close>, \<open>notifyFor\<close>), and the stores of the host. \<open>getUser\<close> and \<open>getChannel\<close>
  give \<open>None\<close> for an id the store does not hold (the source guards some of their calls with
  \<open>?.\<close>), and so does \<open>getGuild\<close>; where the source dereferences such a result directly,
  an absent entry raises. \<open>allowAllMessages\<close> is the mute test of the earlier revision.
  \<open>activeStreams\<close> is the number of entries of the list of that name, \<open>None\<close> when the
  list is missing. \<open>userGuildSettings\<close> is indexed with the raw \<open>guild_id\<close> of a channel.
\<close>

record env =
  determineServerNotifications :: bool
  disableInStreamerMode :: bool
  directMessages :: bool
  groupMessages :: bool
  friendServerNotifications :: bool
  friendActivity :: bool
  streamingTreatment :: StreamingTreatment
  disableMessageBody :: bool
  ignoredUsers :: "string list"
  notifyFor :: "string list"
  getChannel :: "string \<Rightarrow> channel option"
  hasChannel :: "string \<Rightarrow> bool"
  getUser :: "string \<Rightarrow> user option"
  getCurrentUser :: user
  getGuild :: "string \<Rightarrow> guild option"
  getNickname :: "string \<Rightarrow> string option"
  utilsGetName :: "user \<Rightarrow> string"
  isFriend :: "string \<Rightarrow> bool"
  selectedChannelId :: "string option"
  isChannelMuted :: "string \<Rightarrow> bool"
  allowAllMessages :: "channel \<Rightarrow> bool"
  isGuildOrCategoryOrChannelMuted :: "string option \<Rightarrow> string \<Rightarrow> bool"
  userGuildSettings :: "string option \<Rightarrow> user_guild_settings option"
  activeStreams :: "nat option"
  streamerModeEnabled :: bool

text \<open>Truthiness of a value that is a string, \<open>null\<close> or \<open>undefined\<close>.\<close>

definition truthy :: "string option \<Rightarrow> bool" where
  "truthy x = (case x of None \<Rightarrow> False | Some s \<Rightarrow> s \<noteq> [])"

text \<open>Such a value inside a template literal.\<close>

definition str :: "string option \<Rightarrow> string" where
  "str x = (case x of None \<Rightarrow> ''undefined'' | Some s \<Rightarrow> s)"

text \<open>\<open>x || d\<close> for such a value \<open>x\<close> and a string \<open>d\<close>.\<close>

definition or_default :: "string option \<Rightarrow> string \<Rightarrow> string" where
  "or_default x d = (case x of None \<Rightarrow> d | Some s \<Rightarrow> if s \<noteq> [] then s else d)"

section \<open>Mention substitution\<close>

text \<open>
  Dereferencing a store entry that is not there raises a \<open>TypeError\<close>, which ends the
  handling of the event.
\<close>

datatype error = TypeError

text \<open>
  An inline element of a rich body: a plain string, or the \<open>span\<close> that \<open>addMention\<close>
  builds, with its key and its child (\<open>None\<close> when \<open>name\<close> stayed undefined).
\<close>

datatype node = Text string | Span string "string option"

text \<open>
  \<^verbatim>\<open>
  function addMention(id: string, type: string, guildId?: string): ReactNode {
      let name;
      if (type === "user")
          name = `@${UserStore.getUser(id)?.username || "unknown-user"}`;
      else if (type === "channel")
          name = `#${ChannelStore.getChannel(id)?.name || "unknown-channel"}`;
      else if (type === "role" && guildId)
          name = `@${GuildStore.getGuild(guildId).getRole(id)?.name || "unknown-role"}`;
      return (
          <span key={`${type}-${id}`} className="toastnotifications-mention-class">
              {name}
          </span>
      );
  }
  \<close>
\<close>

text \<open>
  \<open>GuildStore.getGuild(guildId).getRole(id)\<close> raises when the store holds no guild of that
  id.
\<close>

definition addMention :: "env \<Rightarrow> string \<Rightarrow> string \<Rightarrow> string option \<Rightarrow> error + node" where
  "addMention st ident type guildId =
     (let name =
        (if type = ''user''
         then Inr (Some (''@'' @ or_default (map_option username (getUser st ident))
                                   ''unknown-user''))
         else if type = ''channel''
         then Inr (Some (''#'' @ or_default (Option.bind (getChannel st ident) channel_name)
                                   ''unknown-channel''))
         else (case guildId of
                 None \<Rightarrow> Inr None
               | Some g \<Rightarrow>
                   if type = ''role'' \<and> g \<noteq> []
                   then (case getGuild st g of
                           None \<Rightarrow> Inl TypeError
                         | Some gd \<Rightarrow>
                             Inr (Some (''@'' @ or_default (map_option role_name (getRole gd ident))
                                                   ''unknown-role'')))
                   else Inr None))
      in case name of
           Inl e \<Rightarrow> Inl e
         | Inr child \<Rightarrow> Inr (Span (type @ ''-'' @ ident) child))"

text \<open>
  \<open>(\d{17,20})>\<close> at the head of \<open>s\<close>, giving the group and what remains. The greedy run
  of digits is the only candidate: with more than 20 digits, or with fewer than 17, no
  count between 17 and 20 is followed by \<open>>\<close>.
\<close>

definition id_gt :: "string \<Rightarrow> (string \<times> string) option" where
  "id_gt s =
     (let d = takeWhile is_digit s in
      if 17 \<le> length d \<and> length d \<le> 20
      then map_option (\<lambda>rest. (d, rest)) (lit CHR ''>'' (dropWhile is_digit s))
      else None)"

text \<open>
  One match of \<open>USER_MENTION_REGEX\<close>, as the replacer function receives it: the matched
  text and the three groups, of which the alternatives that did not match are undefined.
\<close>

record mention_match =
  match_text :: string
  group_userId :: "string option"
  group_channelId :: "string option"
  group_roleId :: "string option"

text \<open>
  The three alternatives of \<open><@!?(\d{17,20})>|<#(\d{17,20})>|<@&(\d{17,20})>\<close> at the
  head of \<open>s\<close>, each giving its group and what remains. \<open>!?\<close> first takes a \<open>!\<close> when
  there is one, and the matcher falls back to taking none when the rest fails.
\<close>

definition user_alt :: "string \<Rightarrow> (string \<times> string) option" where
  "user_alt s =
     lit CHR ''<'' s \<bind> lit CHR ''@'' \<bind> (\<lambda>r. orelse (lit CHR ''!'' r \<bind> id_gt) (id_gt r))"

definition channel_alt :: "string \<Rightarrow> (string \<times> string) option" where
  "channel_alt s = lit CHR ''<'' s \<bind> lit CHR ''#'' \<bind> id_gt"

definition role_alt :: "string \<Rightarrow> (string \<times> string) option" where
  "role_alt s = lit CHR ''<'' s \<bind> lit CHR ''@'' \<bind> lit CHR ''&'' \<bind> id_gt"

text \<open>The pattern at the head of \<open>s\<close>: the alternatives are tried in their order.\<close>

definition mention_at :: "string \<Rightarrow> mention_match option" where
  "mention_at s =
     (case user_alt s of
        Some (d, rest) \<Rightarrow>
          Some \<lparr>match_text = matched s rest, group_userId = Some d,
                group_channelId = None, group_roleId = None\<rparr>
      | None \<Rightarrow>
     (case channel_alt s of
        Some (d, rest) \<Rightarrow>
          Some \<lparr>match_text = matched s rest, group_userId = None,
                group_channelId = Some d, group_roleId = None\<rparr>
      | None \<Rightarrow>
     (case role_alt s of
        Some (d, rest) \<Rightarrow>
          Some \<lparr>match_text = matched s rest, group_userId = None,
                group_channelId = None, group_roleId = Some d\<rparr>
      | None \<Rightarrow> None)))"

text \<open>
  The matches of the global pattern in a string, from left to right, each with its
  offset: the calls that \<open>body.replace(USER_MENTION_REGEX, callback)\<close> makes. \<open>i\<close> is the
  offset of the part of the string still to be scanned.
\<close>

function mention_matches :: "nat \<Rightarrow> string \<Rightarrow> (mention_match \<times> nat) list" where
  "mention_matches i [] = []"
| "mention_matches i (c # cs) =
     (case mention_at (c # cs) of
        None \<Rightarrow> mention_matches (Suc i) cs
      | Some m \<Rightarrow>
          if match_text m = [] then (m, i) # mention_matches (Suc i) cs
          else (m, i) # mention_matches (i + length (match_text m))
                          (drop (length (match_text m)) (c # cs)))"
  by pat_completeness auto
termination
  by (relation "measure (\<lambda>(i, s). length s)") auto

text \<open>
  \<^verbatim>\<open>
  function parseMentions(body: string, channel: Channel): ReactNode[] {
      const elements: ReactNode[] = [];
      let lastIndex = 0;
      body.replace(USER_MENTION_REGEX, (match, userId, channelId, roleId, offset) => {
          elements.push(body.slice(lastIndex, offset));
          if (userId) elements.push(addMention(userId, "user"));
          else if (channelId) elements.push(addMention(channelId, "channel"));
          else if (roleId) elements.push(addMention(roleId, "role", channel.guild_id));
          lastIndex = offset + match.length;
          return match;
      });
      if (lastIndex < body.length) elements.push(body.slice(lastIndex));
      return elements;
  }
  \<close>
  The replacer function is a step on the pair of \<open>elements\<close> and \<open>lastIndex\<close>; it raises
  when \<open>addMention\<close> does, and the exception ends the replacement.
\<close>

definition mention_callback ::
  "env \<Rightarrow> string \<Rightarrow> channel \<Rightarrow> node list \<times> nat \<Rightarrow> mention_match \<times> nat
     \<Rightarrow> error + node list \<times> nat"
  where
  "mention_callback st body ch state call =
     (case (state, call) of
        ((elements, lastIndex), (m, offset)) \<Rightarrow>
          (let elements = elements @ [Text (slice body lastIndex offset)];
               pushed =
                 (case (group_userId m, group_channelId m, group_roleId m) of
                    (u, c, r) \<Rightarrow>
                      if truthy u
                      then map_sum id (\<lambda>e. elements @ [e]) (addMention st (str u) ''user'' None)
                      else if truthy c
                      then map_sum id (\<lambda>e. elements @ [e])
                             (addMention st (str c) ''channel'' None)
                      else if truthy r
                      then map_sum id (\<lambda>e. elements @ [e])
                             (addMention st (str r) ''role'' (guild_id ch))
                      else Inr elements)
           in case pushed of
                Inl e \<Rightarrow> Inl e
              | Inr elements \<Rightarrow> Inr (elements, offset + length (match_text m))))"

text \<open>The calls of the replacer function, one after the other, up to the first that raises.\<close>

fun run_callbacks ::
  "('s \<Rightarrow> 'c \<Rightarrow> error + 's) \<Rightarrow> 's \<Rightarrow> 'c list \<Rightarrow> error + 's" where
  "run_callbacks f state [] = Inr state"
| "run_callbacks f state (c # cs) =
     (case f state c of
        Inl e \<Rightarrow> Inl e
      | Inr state' \<Rightarrow> run_callbacks f state' cs)"

definition parseMentions :: "env \<Rightarrow> string \<Rightarrow> channel \<Rightarrow> error + node list" where
  "parseMentions st body ch =
     (case run_callbacks (mention_callback st body ch) ([], 0) (mention_matches 0 body) of
        Inl e \<Rightarrow> Inl e
      | Inr (elements, lastIndex) \<Rightarrow>
          Inr (if lastIndex < length body then elements @ [Text (drop lastIndex body)]
               else elements))"

text \<open>The plain-text segments of a rich sequence, in order.\<close>

fun text_segments :: "node list \<Rightarrow> string list" where
  "text_segments [] = []"
| "text_segments (Text t # ns) = t # text_segments ns"
| "text_segments (Span k n # ns) = text_segments ns"

text \<open>Whether an element is a mention element.\<close>

primrec is_mention :: "node \<Rightarrow> bool" where
  "is_mention (Text t) = False"
| "is_mention (Span k n) = True"

text \<open>Whether one of the groups of a match is a non-empty string.\<close>

definition has_group :: "mention_match \<Rightarrow> bool" where
  "has_group m =
     (truthy (group_userId m) \<or> truthy (group_channelId m) \<or> truthy (group_roleId m))"

text \<open>
  The body with every mention token removed, as the spec words it:
  \<open>body.replace(USER_MENTION_REGEX, "")\<close>.
\<close>

definition without_mentions :: "string \<Rightarrow> string" where
  "without_mentions body =
     replace_global (\<lambda>s. map_option match_text (mention_at s)) (\<lambda>match. []) body"

text \<open>
  A mention token: one of the sigils \<open><@\<close>, \<open><@!\<close>, \<open><#\<close>, \<open><@&\<close>, an id and \<open>>\<close>.
\<close>

definition mention_token :: "string \<Rightarrow> string \<Rightarrow> string" where
  "mention_token sigil ident = sigil @ ident @ ''>''"

section \<open>Messages and notifications\<close>

record attachment =
  content_type :: "string option"
  filename :: string
  url :: string

text \<open>Embeds and stickers are only counted or tested for presence.\<close>

datatype embed = Embed

datatype sticker = Sticker

text \<open>
  Modelled from the spec: the enum \<open>MessageTypes\<close> is declared in \<open>./types\<close>, which is not
  among the sources. The spec names the system-message types call-started,
  member-added-to-group, member-removed-from-group, channel-name-changed,
  channel-icon-changed and channel-pinned-message; every other type takes the default
  branch of \<open>getNotificationBody\<close>.
\<close>

datatype MessageTypes =
    CALL
  | CHANNEL_RECIPIENT_ADD
  | CHANNEL_RECIPIENT_REMOVE
  | CHANNEL_NAME_CHANGE
  | CHANNEL_ICON_CHANGE
  | CHANNEL_PINNED_MESSAGE
  | OTHER_MESSAGE_TYPE

text \<open>
  The two revisions read an entry of \<open>message.mentions\<close> differently: the later one as a
  string (\<open>message.mentions[0]?.replace(...)\<close>), the earlier one as a user object
  (\<open>message.mentions[0]?.id\<close>). The type of the entries is a parameter of the record.
\<close>

record 'm message_of =
  message_channel_id :: string
  author :: user
  content :: string
  message_type :: MessageTypes
  mentions :: "'m list option"
  mentionRoles :: "string list option"
  embeds :: "embed list option"
  stickerItems :: "sticker list option"
  attachments :: "attachment list option"

type_synonym message = "string message_of"

type_synonym earlier_message = "user message_of"

text \<open>
  What a click on a notification runs. The three closures of the source are
  \<open>() => SelectedChannelActionCreators.selectPrivateChannel(message.channel_id)\<close>,
  \<open>() => switchChannels(channel.guild_id, channel.id)\<close> and
  \<open>() => switchChannels(null, ...)\<close>; a closure is kept as the call it will make.
\<close>

datatype click = SelectPrivateChannel string | SwitchChannels "string option" string

text \<open>
  Modelled from the spec: the interface \<open>NotificationData\<close> is declared in
  \<open>./components/Notifications\<close>, which is not among the sources. The spec lists title,
  icon, body, an optional rich body, an optional image, the attachment count, the
  permanent flag and an optional click handler.
\<close>

record NotificationData =
  title :: string
  icon :: string
  notification_body :: string
  richBody :: "node list option"
  image :: "string option"
  attachment_count :: "nat option"
  permanent :: "bool option"
  onClick :: "click option"

text \<open>
  What handling an event comes to: the notification handed to \<open>showNotification\<close>, a
  return without one, or an exception.
\<close>

datatype outcome = Shown NotificationData | NoNotification | Threw error

text \<open>\<open>xs?.length\<close> as a condition.\<close>

definition has_length :: "'a list option \<Rightarrow> bool" where
  "has_length xs = (case xs of None \<Rightarrow> False | Some l \<Rightarrow> l \<noteq> [])"

text \<open>
  \<^verbatim>\<open>
  function getName(user: User): string {
      return RelationshipStore.getNickname(user.id) ?? UserUtils.getName(user);
  }

  function getAvatarURL(user: User): string {
      return `https://cdn.discordapp.com/avatars/${user.id}/${user.avatar}.png?size=128`;
  }
  \<close>
\<close>

definition getName :: "env \<Rightarrow> user \<Rightarrow> string" where
  "getName st u = (case getNickname st (user_id u) of Some n \<Rightarrow> n | None \<Rightarrow> utilsGetName st u)"

definition getAvatarURL :: "user \<Rightarrow> string" where
  "getAvatarURL u =
     ''https://cdn.discordapp.com/avatars/'' @ user_id u @ ''/'' @ avatar u @ ''.png?size=128''"

section \<open>Title of a notification\<close>

text \<open>White space as \<open>trim()\<close> sees it, among the code units below 256.\<close>

definition is_space :: "char \<Rightarrow> bool" where
  "is_space c = (c \<in> {CHR 0x09, CHR 0x0A, CHR 0x0B, CHR 0x0C, CHR 0x0D, CHR 0x20, CHR 0xA0})"

definition trim :: "string \<Rightarrow> string" where
  "trim s = rev (dropWhile is_space (rev (dropWhile is_space s)))"

text \<open>\<open>xs.join(sep)\<close>\<close>

fun join :: "string \<Rightarrow> string list \<Rightarrow> string" where
  "join sep [] = []"
| "join sep [x] = x"
| "join sep (x # y # ys) = x @ sep @ join sep (y # ys)"

text \<open>
  \<^verbatim>\<open>
  function getNotificationTitle(message: Message, channel: Channel): string {
      if (channel.isGroupDM()) {
          let channelName = channel.name?.trim() || channel.rawRecipients?.slice(0, 3).map(e => e.username).join(", ");
          if (channelName?.length > 20) channelName = channelName.substring(0, 20) + "...";
          return `${message.author.username} (${channelName})`;
      }
      if (channel.guild_id) return `${getName(message.author)} (#${channel.name})`;
      return getName(message.author);
  }
  \<close>
  The label of a group DM is first computed, then cut.
\<close>

definition groupChannelName :: "channel \<Rightarrow> string option" where
  "groupChannelName ch =
     (let recipients = map_option (\<lambda>rs. join '', '' (map username (take 3 rs))) (rawRecipients ch)
      in case map_option trim (channel_name ch) of
           None \<Rightarrow> recipients
         | Some n \<Rightarrow> if n \<noteq> [] then Some n else recipients)"

definition cutChannelName :: "string option \<Rightarrow> string option" where
  "cutChannelName channelName =
     (case channelName of
        None \<Rightarrow> None
      | Some n \<Rightarrow> if length n > 20 then Some (take 20 n @ ''...'') else Some n)"

definition getNotificationTitle :: "env \<Rightarrow> message \<Rightarrow> channel \<Rightarrow> string" where
  "getNotificationTitle st msg ch =
     (if isGroupDM ch
      then username (author msg) @ '' ('' @ str (cutChannelName (groupChannelName ch)) @ '')''
      else if truthy (guild_id ch)
      then getName st (author msg) @ '' (#'' @ str (channel_name ch) @ '')''
      else getName st (author msg))"

section \<open>Body of a notification\<close>

text \<open>\<open>s || d\<close> for a string \<open>s\<close>.\<close>

definition or_string :: "string \<Rightarrow> string \<Rightarrow> string" where
  "or_string s d = (if s \<noteq> [] then s else d)"

text \<open>
  \<open>images = message.attachments.filter(e => e?.content_type?.startsWith("image"))\<close>
\<close>

definition images :: "attachment list \<Rightarrow> attachment list" where
  "images as =
     filter (\<lambda>e. case content_type e of None \<Rightarrow> False | Some t \<Rightarrow> prefix ''image'' t) as"

text \<open>
  \<open>message.mentions[0]?.replace(/[<@!>]/g, "")\<close>, then \<open>UserStore.getUser(userId)\<close>: reading
  index 0 of a missing list raises, an empty list gives \<open>undefined\<close>, under which the store
  holds no user.
\<close>

definition firstMentionedUser :: "env \<Rightarrow> message \<Rightarrow> error + user option" where
  "firstMentionedUser st msg =
     (case mentions msg of
        None \<Rightarrow> Inl TypeError
      | Some [] \<Rightarrow> Inr None
      | Some (m # _) \<Rightarrow> Inr (getUser st (filter (\<lambda>c. c \<notin> set ''<@!>'') m)))"

text \<open>
  \<^verbatim>\<open>
  function getNotificationBody(message: Message, channel: Channel): string {
      switch (message.type) {
          case MessageTypes.CALL:
              return "Started a call with you!";
          case MessageTypes.CHANNEL_RECIPIENT_ADD: {
              const actor = UserStore.getUser(message.author.id);
              const userId = message.mentions[0]?.replace(/[<@!>]/g, "");
              const targetUser = UserStore.getUser(userId);
              return `${getName(targetUser)} was added to the group by ${getName(actor)}.`;
          }
          case MessageTypes.CHANNEL_RECIPIENT_REMOVE: {
              const actor = UserStore.getUser(message.author.id);
              const userId = message.mentions[0]?.replace(/[<@!>]/g, "");
              const targetUser = UserStore.getUser(userId);
              return actor.id !== targetUser.id
                  ? `${getName(targetUser)} was removed from the group by ${getName(actor)}.`
                  : "Left the group.";
          }
          case MessageTypes.CHANNEL_NAME_CHANGE:
              return `Changed the channel name to '${message.content}'.`;
          case MessageTypes.CHANNEL_ICON_CHANGE:
              return "Changed the channel icon.";
          case MessageTypes.CHANNEL_PINNED_MESSAGE:
              return "Pinned a message.";
          default:
              if (message.embeds?.length) return message.content || "Sent an embed.";
              if (message.stickerItems) return message.content || "Sent a sticker.";
              if (message.attachments?.length) {
                  const images = message.attachments.filter(e => e?.content_type?.startsWith("image"));
                  if (images.length) return message.content || "";
                  return (message.content || "") + ` [Attachment: ${message.attachments[0].filename}]`;
              }
              return message.content;
      }
  }
  \<close>
  \<open>getName(u)\<close> reads \<open>u.id\<close>, and so raises when \<open>u\<close> is undefined.
\<close>

definition getNotificationBody :: "env \<Rightarrow> message \<Rightarrow> channel \<Rightarrow> error + string" where
  "getNotificationBody st msg ch =
     (case message_type msg of
        CALL \<Rightarrow> Inr ''Started a call with you!''
      | CHANNEL_RECIPIENT_ADD \<Rightarrow>
          (let actor = getUser st (user_id (author msg)) in
           case firstMentionedUser st msg of
             Inl e \<Rightarrow> Inl e
           | Inr targetUser \<Rightarrow>
               (case targetUser of
                  None \<Rightarrow> Inl TypeError
                | Some t \<Rightarrow>
                    (case actor of
                       None \<Rightarrow> Inl TypeError
                     | Some a \<Rightarrow>
                         Inr (getName st t @ '' was added to the group by '' @ getName st a @ ''.''))))
      | CHANNEL_RECIPIENT_REMOVE \<Rightarrow>
          (let actor = getUser st (user_id (author msg)) in
           case firstMentionedUser st msg of
             Inl e \<Rightarrow> Inl e
           | Inr targetUser \<Rightarrow>
               (case actor of
                  None \<Rightarrow> Inl TypeError
                | Some a \<Rightarrow>
                    (case targetUser of
                       None \<Rightarrow> Inl TypeError
                     | Some t \<Rightarrow>
                         if user_id a \<noteq> user_id t
                         then Inr (getName st t @ '' was removed from the group by '' @ getName st a
                                   @ ''.'')
                         else Inr ''Left the group.'')))
      | CHANNEL_NAME_CHANGE \<Rightarrow> Inr (''Changed the channel name to '' @ [CHR 0x27] @ content msg
                                     @ [CHR 0x27] @ ''.'')
      | CHANNEL_ICON_CHANGE \<Rightarrow> Inr ''Changed the channel icon.''
      | CHANNEL_PINNED_MESSAGE \<Rightarrow> Inr ''Pinned a message.''
      | OTHER_MESSAGE_TYPE \<Rightarrow>
          if has_length (embeds msg) then Inr (or_string (content msg) ''Sent an embed.'')
          else if stickerItems msg \<noteq> None then Inr (or_string (content msg) ''Sent a sticker.'')
          else (case attachments msg of
                  None \<Rightarrow> Inr (content msg)
                | Some [] \<Rightarrow> Inr (content msg)
                | Some (a # as) \<Rightarrow>
                    if images (a # as) \<noteq> [] then Inr (or_string (content msg) [])
                    else Inr (or_string (content msg) [] @ '' [Attachment: '' @ filename a @ '']'')))"

section \<open>Building the notification\<close>

text \<open>
  \<^verbatim>\<open>
  function buildNotificationData(
      message: Message,
      channel: Channel,
      onClick: () => void
  ): NotificationData {
      let body = getNotificationBody(message, channel);
      body = formatEmotes(body);

      const richBodyElements =
          (message.mentions?.length || message.mentionRoles?.length)
              ? parseMentions(body, channel)
              : null;

      const notification: NotificationData = {
          title: getNotificationTitle(message, channel),
          icon: getAvatarURL(message.author),
          body: limitMessageLength(body, !!message.attachments?.length),
          attachments: message.attachments?.length,
          richBody: richBodyElements?.length
              ? <>{richBodyElements}</>
              : null,
          permanent: false,
          onClick,
      };

      if (message.attachments?.length) {
          const images = message.attachments.filter(e => e?.content_type?.startsWith("image"));
          if (images.length) notification.image = images[0].url;
      }

      return notification;
  }
  \<close>
\<close>

definition buildNotificationData ::
  "env \<Rightarrow> message \<Rightarrow> channel \<Rightarrow> click \<Rightarrow> error + NotificationData" where
  "buildNotificationData st msg ch click =
     (case getNotificationBody st msg ch of
        Inl e \<Rightarrow> Inl e
      | Inr body0 \<Rightarrow>
          (let body = formatEmotes body0 in
           case (if has_length (mentions msg) \<or> has_length (mentionRoles msg)
                 then map_sum id Some (parseMentions st body ch)
                 else Inr None) of
             Inl e \<Rightarrow> Inl e
           | Inr richBodyElements \<Rightarrow>
               (let notification =
                  \<lparr>title = getNotificationTitle st msg ch,
                   icon = getAvatarURL (author msg),
                   notification_body = limitMessageLength body (has_length (attachments msg)),
                   richBody = (if has_length richBodyElements then richBodyElements else None),
                   image = None,
                   attachment_count = map_option length (attachments msg),
                   permanent = Some False,
                   onClick = Some click\<rparr>
                in Inr (case attachments msg of
                          None \<Rightarrow> notification
                        | Some as \<Rightarrow>
                            (case images as of
                               [] \<Rightarrow> notification
                             | i # _ \<Rightarrow> notification\<lparr>image := Some (url i)\<rparr>)))))"

section \<open>Handling a new message\<close>

text \<open>\<open>s.includes(t)\<close>\<close>

fun includes_str :: "string \<Rightarrow> string \<Rightarrow> bool" where
  "includes_str [] t = (t = [])"
| "includes_str (c # cs) t = (prefix t (c # cs) \<or> includes_str cs t)"

text \<open>
  \<^verbatim>\<open>
  function findNotificationLevel(channel: Channel): NotificationLevel {
      const store = Vencord.Webpack.findStore("UserGuildSettingsStore");
      const userGuildSettings = store.getAllSettings().userGuildSettings[channel.guild_id];

      if (
          !settings.store.determineServerNotifications ||
          MuteStore.isGuildOrCategoryOrChannelMuted(channel.guild_id, channel.id)
      ) return NotificationLevel.NO_MESSAGES;

      if (userGuildSettings) {
          const channelOverrides = userGuildSettings.channel_overrides?.[channel.id];
          const guildDefault = userGuildSettings.message_notifications;
          if (channelOverrides && typeof channelOverrides === "object" && "message_notifications" in channelOverrides)
              return channelOverrides.message_notifications;
          if (typeof guildDefault === "number") return guildDefault;
      }
      return NotificationLevel.NO_MESSAGES;
  }
  \<close>
\<close>

definition channelOverride :: "user_guild_settings \<Rightarrow> channel \<Rightarrow> NotificationLevel option" where
  "channelOverride s ch =
     (case channel_overrides s of
        None \<Rightarrow> None
      | Some overrides \<Rightarrow>
          (case overrides (channel_id ch) of
             None \<Rightarrow> None
           | Some channelOverrides \<Rightarrow> override_message_notifications channelOverrides))"

definition findNotificationLevel :: "env \<Rightarrow> channel \<Rightarrow> NotificationLevel" where
  "findNotificationLevel st ch =
     (if \<not> determineServerNotifications st
         \<or> isGuildOrCategoryOrChannelMuted st (guild_id ch) (channel_id ch)
      then NO_MESSAGES
      else (case userGuildSettings st (guild_id ch) of
              None \<Rightarrow> NO_MESSAGES
            | Some s \<Rightarrow>
                (case channelOverride s ch of
                   Some level \<Rightarrow> level
                 | None \<Rightarrow>
                     (case message_notifications s of
                        Some guildDefault \<Rightarrow> guildDefault
                      | None \<Rightarrow> NO_MESSAGES))))"

text \<open>
  \<open>isStreaming = findStore("ApplicationStreamingStore").getState().activeStreams?.length >= 1\<close>
\<close>

definition isStreaming :: "env \<Rightarrow> bool" where
  "isStreaming st = (case activeStreams st of None \<Rightarrow> False | Some n \<Rightarrow> n \<ge> 1)"

text \<open>
  The redaction both handlers end with:
  \<^verbatim>\<open>
      if (
          (isStreaming && settings.store.streamingTreatment === StreamingTreatment.NO_CONTENT) ||
          settings.store.disableMessageBody
      ) {
          notification.body = "Message content has been redacted.";
          notification.richBody = null;
      }
  \<close>
\<close>

definition redact :: "env \<Rightarrow> NotificationData \<Rightarrow> NotificationData" where
  "redact st notification =
     (if (isStreaming st \<and> streamingTreatment st = NO_CONTENT) \<or> disableMessageBody st
      then notification\<lparr>notification_body := ''Message content has been redacted.'',
                         richBody := None\<rparr>
      else notification)"

text \<open>
  \<^verbatim>\<open>
  async function handleGuildMessage(message: Message) {
      const channel = ChannelStore.getChannel(message.channel_id);
      const notificationLevel = findNotificationLevel(channel);

      const all = notifyFor.includes(message.channel_id);
      const friend =
          settings.store.friendServerNotifications &&
          RelationshipStore.isFriend(message.author.id);

      if (!all && !friend) {
          const isMention = message.content.includes(`<@${UserStore.getCurrentUser().id}>`);
          const meetsMentionCriteria =
              notificationLevel !== NotificationLevel.ALL_MESSAGES && !isMention;
          if (
              notificationLevel === NotificationLevel.NO_MESSAGES ||
              meetsMentionCriteria
          ) return;
      }

      const notification = buildNotificationData(
          message,
          channel,
          () => switchChannels(channel.guild_id, channel.id)
      );

      const isStreaming = ...;

      if (...) {
          notification.body = "Message content has been redacted.";
          notification.richBody = null;
      }

      await showNotification(notification);
  }
  \<close>
\<close>

definition handleGuildMessage :: "env \<Rightarrow> message \<Rightarrow> outcome" where
  "handleGuildMessage st msg =
     (case getChannel st (message_channel_id msg) of
        None \<Rightarrow> Threw TypeError
      | Some ch \<Rightarrow>
          (let notificationLevel = findNotificationLevel st ch;
               all = (message_channel_id msg \<in> set (notifyFor st));
               friend = (friendServerNotifications st \<and> isFriend st (user_id (author msg)));
               isMention = includes_str (content msg) (''<@'' @ user_id (getCurrentUser st) @ ''>'');
               meetsMentionCriteria = (notificationLevel \<noteq> ALL_MESSAGES \<and> \<not> isMention)
           in if \<not> all \<and> \<not> friend \<and> (notificationLevel = NO_MESSAGES \<or> meetsMentionCriteria)
              then NoNotification
              else (case buildNotificationData st msg ch
                           (SwitchChannels (guild_id ch) (channel_id ch)) of
                      Inl e \<Rightarrow> Threw e
                    | Inr notification \<Rightarrow> Shown (redact st notification))))"

text \<open>
  \<^verbatim>\<open>
  async MESSAGE_CREATE({ message }: { message: Message; }) {
      const channel = ChannelStore.getChannel(message.channel_id);
      const currentUser = UserStore.getCurrentUser();

      const isStreaming = ...;
      const streamerMode = settings.store.disableInStreamerMode;
      const currentUserStreamerMode =
          Vencord.Webpack.findStore("StreamerModeStore").enabled;

      if (
          streamerMode && currentUserStreamerMode ||
          isStreaming && settings.store.streamingTreatment === StreamingTreatment.IGNORE ||
          message.author.id === currentUser.id ||
          channel.id === SelectedChannelStore.getChannelId() ||
          ignoredUsers.includes(message.author.id)
      ) return;

      if (channel.guild_id) {
          await handleGuildMessage(message);
          return;
      }

      if (
          (!settings.store.directMessages && channel.isDM()) ||
          (!settings.store.groupMessages && channel.isGroupDM()) ||
          MuteStore.isChannelMuted(null, channel.id)
      ) return;

      const notification = buildNotificationData(
          message,
          channel,
          () => SelectedChannelActionCreators.selectPrivateChannel(message.channel_id)
      );

      if (...) {
          notification.body = "Message content has been redacted.";
          notification.richBody = null;
      }

      showNotification(notification);
  }
  \<close>
  The first condition is evaluated from left to right: \<open>channel.id\<close> is only read, and
  only then raises for a channel the store does not hold, when the three tests before it
  are false.
\<close>

definition MESSAGE_CREATE :: "env \<Rightarrow> message \<Rightarrow> outcome" where
  "MESSAGE_CREATE st msg =
     (let channel = getChannel st (message_channel_id msg);
          currentUser = getCurrentUser st
      in if (disableInStreamerMode st \<and> streamerModeEnabled st)
            \<or> (isStreaming st \<and> streamingTreatment st = IGNORE)
            \<or> user_id (author msg) = user_id currentUser
         then NoNotification
         else (case channel of
                 None \<Rightarrow> Threw TypeError
               | Some ch \<Rightarrow>
                   if Some (channel_id ch) = selectedChannelId st
                      \<or> user_id (author msg) \<in> set (ignoredUsers st)
                   then NoNotification
                   else if truthy (guild_id ch) then handleGuildMessage st msg
                   else if (\<not> directMessages st \<and> isDM ch)
                           \<or> (\<not> groupMessages st \<and> isGroupDM ch)
                           \<or> isChannelMuted st (channel_id ch)
                   then NoNotification
                   else (case buildNotificationData st msg ch
                                (SelectPrivateChannel (message_channel_id msg)) of
                           Inl e \<Rightarrow> Threw e
                         | Inr notification \<Rightarrow> Shown (redact st notification))))"

section \<open>Relationship events\<close>

text \<open>
  Modelled from the spec: the enum \<open>RelationshipType\<close> is declared in
  \<open>plugins/relationshipNotifier/types\<close>, which is not among the sources. The spec gives a
  relationship the types friend, incoming-request and other.
\<close>

datatype RelationshipType = FRIEND | INCOMING_REQUEST | OTHER_RELATIONSHIP

record relationship =
  relationship_user :: user
  relationship_type :: RelationshipType

text \<open>
  \<^verbatim>\<open>
  async function relationshipAdd(user: User, type: Number) {
      if (!settings.store.friendActivity) return;
      user = UserStore.getUser(user.id);

      const notification: NotificationData = {
          title: "",
          icon: getAvatarURL(user),
          body: "",
          attachments: 0,
      };

      if (type === RelationshipType.FRIEND) {
          notification.title = `${user.username} is now your friend`;
          notification.body = "You can now message them directly.";
          notification.onClick = () => switchChannels(null, user.id);
      } else if (type === RelationshipType.INCOMING_REQUEST) {
          notification.title = `${user.username} sent you a friend request`;
          notification.body = "You can accept or decline it in the Friends tab.";
          notification.onClick = () => switchChannels(null, "");
      } else {
          return;
      }

      await showNotification(notification);
  }
  \<close>
  \<open>getAvatarURL(user)\<close> reads \<open>user.id\<close>, and so raises when the store holds no such user.
\<close>

definition relationshipAdd :: "env \<Rightarrow> user \<Rightarrow> RelationshipType \<Rightarrow> outcome" where
  "relationshipAdd st u0 type =
     (if \<not> friendActivity st then NoNotification
      else (case getUser st (user_id u0) of
              None \<Rightarrow> Threw TypeError
            | Some u \<Rightarrow>
                (let notification =
                   \<lparr>title = [], icon = getAvatarURL u, notification_body = [],
                    richBody = None, image = None, attachment_count = Some 0,
                    permanent = None, onClick = None\<rparr>
                 in case type of
                      FRIEND \<Rightarrow>
                        Shown (notification
                          \<lparr>title := username u @ '' is now your friend'',
                           notification_body := ''You can now message them directly.'',
                           onClick := Some (SwitchChannels None (user_id u))\<rparr>)
                    | INCOMING_REQUEST \<Rightarrow>
                        Shown (notification
                          \<lparr>title := username u @ '' sent you a friend request'',
                           notification_body := ''You can accept or decline it in the Friends tab.'',
                           onClick := Some (SwitchChannels None [])\<rparr>)
                    | OTHER_RELATIONSHIP \<Rightarrow> NoNotification)))"

text \<open>
  \<^verbatim>\<open>
  async RELATIONSHIP_ADD({ relationship }) {
      if (ignoredUsers.includes(relationship.user.id)) return;
      relationshipAdd(relationship.user, relationship.type);
  }
  \<close>
\<close>

definition RELATIONSHIP_ADD :: "env \<Rightarrow> relationship \<Rightarrow> outcome" where
  "RELATIONSHIP_ADD st r =
     (if user_id (relationship_user r) \<in> set (ignoredUsers st) then NoNotification
      else relationshipAdd st (relationship_user r) (relationship_type r))"

section \<open>Clicking a notification\<close>

text \<open>
  \<^verbatim>\<open>
  function switchChannels(guildId: string | null, channelId: string) {
      if (!ChannelStore.hasChannel(channelId)) return;
      NavigationRouter.transitionTo(`/channels/${guildId ?? "@me"}/${channelId}/`);
  }
  \<close>
  What a click does to the host: nothing, a transition to a route, or the selection of
  a private channel.
\<close>

datatype navigation = NoNavigation | TransitionTo string | SelectedPrivateChannel string

definition switchChannels :: "env \<Rightarrow> string option \<Rightarrow> string \<Rightarrow> navigation" where
  "switchChannels st guildId channelId =
     (if \<not> hasChannel st channelId then NoNavigation
      else TransitionTo (''/channels/'' @ (case guildId of None \<Rightarrow> ''@me'' | Some g \<Rightarrow> g)
                          @ ''/'' @ channelId @ ''/''))"

text \<open>Running a click handler, in the state of the host at the time of the click.\<close>

fun run_click :: "env \<Rightarrow> click \<Rightarrow> navigation" where
  "run_click st (SelectPrivateChannel c) = SelectedPrivateChannel c"
| "run_click st (SwitchChannels guildId channelId) = switchChannels st guildId channelId"

section \<open>The earlier revision\<close>

text \<open>
  The earlier revision of the plugin handles a message in \<open>MESSAGE_CREATE\<close> and in
  \<open>handleGuildMessage\<close>, which both build the notification in line. \<open>getName\<close>,
  \<open>addMention\<close> and \<open>switchChannels\<close> have the text of the later revision and are shared
  with it.
\<close>

text \<open>
  \<^verbatim>\<open>
  function limitMessageLength(body: string, hasAttachments: boolean): string {
      if (hasAttachments) {
          if (body.length > 30) {
              return body.substring(0, 27) + "...";
          }
      }

      if (body.length > 165) {
          return body.substring(0, 162) + "...";
      }

      return body;
  }
  \<close>
\<close>

definition limitMessageLength_earlier :: "string \<Rightarrow> bool \<Rightarrow> string" where
  "limitMessageLength_earlier body hasAttachments =
     (let rest = (if length body > 165 then take 162 body @ ''...'' else body)
      in if hasAttachments
         then (if length body > 30 then take 27 body @ ''...'' else rest)
         else rest)"

text \<open>
  \<open>s.match(rx)\<close> for a global pattern: the matched texts from left to right. No match
  gives \<open>null\<close>, over which the source does not loop, as over the empty list.
\<close>

function match_global :: "(string \<Rightarrow> string option) \<Rightarrow> string \<Rightarrow> string list" where
  "match_global rx [] = (case rx [] of Some m \<Rightarrow> [m] | None \<Rightarrow> [])"
| "match_global rx (c # cs) =
     (case rx (c # cs) of
        None \<Rightarrow> match_global rx cs
      | Some m \<Rightarrow>
          if m = [] then m # match_global rx cs
          else m # match_global rx (drop (length m) (c # cs)))"
  by pat_completeness auto
termination
  by (relation "measure (\<lambda>(rx, s). length s)") auto

text \<open>
  \<open>s.replace(new RegExp(pat, "g"), rep)\<close> for a pattern text \<open>pat\<close> without special
  characters and a replacement without \<open>$\<close>: every occurrence of \<open>pat\<close>, from the left,
  becomes \<open>rep\<close>. A match of the emote pattern consists of \<open><\<close>, \<open>a\<close>, \<open>:\<close>, word
  characters, digits and \<open>>\<close>, none of which is special in a pattern, and its name holds
  no \<open>$\<close>.
\<close>

definition replace_literal :: "string \<Rightarrow> string \<Rightarrow> string \<Rightarrow> string" where
  "replace_literal pat rep s =
     replace_global (\<lambda>t. if prefix pat t then Some pat else None) (\<lambda>match. rep) s"

text \<open>
  \<^verbatim>\<open>
  // TODO: Format emotes properly.
  const matches = Notification.body.match(new RegExp("(<a?:\\w+:\\d+>)", "g"));
  if (matches) {
      for (const match of matches) {
          Notification.body = Notification.body.replace(new RegExp(`${match}`, "g"), `:${match.split(":")[1]}:`);
      }
  }
  \<close>
\<close>

definition formatEmotes_earlier :: "string \<Rightarrow> string" where
  "formatEmotes_earlier body0 =
     foldl (\<lambda>body match.
              replace_literal match ('':'' @ index_str (split_on CHR '':'' match) 1 @ '':'') body)
       body0 (match_global emote_at body0)"

text \<open>
  \<^verbatim>\<open>
  let lastIndex = 0;
  Notification.body.replace(USER_MENTION_REGEX, (match, userId, channelId, roleId, offset) => {
      richBodyElements.push(Notification.body.slice(lastIndex, offset));

      // Add the mention itself as a styled span.
      if (userId) {
          richBodyElements.push(addMention(userId, "user"));
      } else if (channelId) {
          richBodyElements.push(addMention(channelId, "channel"));
      } else if (roleId) {
          richBodyElements.push(addMention(roleId, "role", channel.guild_id));
      }

      lastIndex = offset + match.length;
      return match; // This value is not used but is necessary for the replace function
  });
  \<close>
  The replacer function is that of \<open>parseMentions\<close>; nothing follows the replacement.
\<close>

definition replaceMentions_earlier :: "env \<Rightarrow> string \<Rightarrow> channel \<Rightarrow> error + node list" where
  "replaceMentions_earlier st body ch =
     map_sum id fst
       (run_callbacks (mention_callback st body ch) ([], 0) (mention_matches 0 body))"

text \<open>
  Both handlers go on in the same way once the notification has its title and its first
  body:
  \<^verbatim>\<open>
  // Message contains an embed.
  if (message.embeds.length !== 0) {
      Notification.body = notificationText || "Sent an embed.";
  }

  // Message contains a sticker.
  if (message?.stickerItems) {
      Notification.body = notificationText || "Sent a sticker.";
  }

  // Message contains an attachment.
  if (message.attachments.length !== 0) {
      const images = message.attachments.filter(e => typeof e?.content_type === "string" && e?.content_type.startsWith("image"));
      // Label the notification with the attachment type.
      if (images.length !== 0) {
          Notification.body = notificationText || ""; // Dont show any body
          Notification.image = images[0].url;
      } else {
          Notification.body += ` [Attachment: ${message.attachments[0].filename}]`;
      }
  }

  // TODO: Format emotes properly.
  ...

  // Replace any mention of users, roles and channels.
  if (message.mentions.length !== 0 || message.mentionRoles?.length > 0) {
      let lastIndex = 0;
      Notification.body.replace(USER_MENTION_REGEX, ...);
  }

  if (richBodyElements.length > 0) {
      const MyRichBodyComponent = () => <>{richBodyElements}</>;
      Notification.richBody = <MyRichBodyComponent />;
  }

  Notification.body = limitMessageLength(Notification.body, Notification.attachments > 0);
  showNotification(Notification);
  \<close>
  where \<open>notificationText = message.content.length > 0 ? message.content : false\<close>. Reading
  the length of \<open>message.embeds\<close>, \<open>message.attachments\<close> or \<open>message.mentions\<close> raises
  when the list is missing.
\<close>

definition finishNotification_earlier ::
  "env \<Rightarrow> earlier_message \<Rightarrow> channel \<Rightarrow> NotificationData \<Rightarrow> outcome" where
  "finishNotification_earlier st msg ch n0 =
     (case embeds msg of
        None \<Rightarrow> Threw TypeError
      | Some es \<Rightarrow>
     (let n1 = (if es \<noteq> []
                then n0\<lparr>notification_body := or_string (content msg) ''Sent an embed.''\<rparr>
                else n0);
          n2 = (if stickerItems msg \<noteq> None
                then n1\<lparr>notification_body := or_string (content msg) ''Sent a sticker.''\<rparr>
                else n1)
      in case attachments msg of
           None \<Rightarrow> Threw TypeError
         | Some as \<Rightarrow>
     (let n3 = (case as of
                  [] \<Rightarrow> n2
                | a # _ \<Rightarrow>
                    (case images as of
                       i # _ \<Rightarrow> n2\<lparr>notification_body := or_string (content msg) [],
                                     image := Some (url i)\<rparr>
                     | [] \<Rightarrow> n2\<lparr>notification_body :=
                                  notification_body n2 @ '' [Attachment: '' @ filename a @ '']''\<rparr>));
          n4 = n3\<lparr>notification_body := formatEmotes_earlier (notification_body n3)\<rparr>
      in case mentions msg of
           None \<Rightarrow> Threw TypeError
         | Some ms \<Rightarrow>
     (case (if ms \<noteq> [] \<or> has_length (mentionRoles msg)
            then replaceMentions_earlier st (notification_body n4) ch
            else Inr []) of
        Inl e \<Rightarrow> Threw e
      | Inr richBodyElements \<Rightarrow>
     (let n5 = (if richBodyElements \<noteq> [] then n4\<lparr>richBody := Some richBodyElements\<rparr> else n4);
          hasAttachments = (case attachment_count n5 of None \<Rightarrow> False | Some k \<Rightarrow> k > 0)
      in Shown (n5\<lparr>notification_body :=
                      limitMessageLength_earlier (notification_body n5) hasAttachments\<rparr>))))))"

text \<open>
  \<^verbatim>\<open>
  async function handleGuildMessage(message: Message) {
      // todo: check if the user who sent it is a friend
      const all = notifyFor.includes(message.channel_id);
      const friend = settings.store.friendServerNotifications && RelationshipStore.isFriend(message.author.id);

      if (!(all || friend))
          return;

      const channel: Channel = ChannelStore.getChannel(message.channel_id);

      const notificationText = message.content.length > 0 ? message.content : false;
      const richBodyElements: React.ReactNode[] = [];

      // Prepare the notification.
      const Notification: NotificationData = {
          title: `${getName(message.author)} (#${channel.name})`,
          icon: `https://cdn.discordapp.com/avatars/${message.author.id}/${message.author.avatar}.png?size=128`,
          body: message.content,
          attachments: message.attachments.length,
          richBody: null,
          permanent: false,
          onClick() { switchChannels(channel.guild_id, channel.id); }
      };

      ... (as above) ...

      Notification.body = limitMessageLength(Notification.body, Notification.attachments > 0);
      await showNotification(Notification);
  }
  \<close>
\<close>

definition handleGuildMessage_earlier :: "env \<Rightarrow> earlier_message \<Rightarrow> outcome" where
  "handleGuildMessage_earlier st msg =
     (let all = (message_channel_id msg \<in> set (notifyFor st));
          friend = (friendServerNotifications st \<and> isFriend st (user_id (author msg)))
      in if \<not> (all \<or> friend) then NoNotification
         else (case getChannel st (message_channel_id msg) of
                 None \<Rightarrow> Threw TypeError
               | Some ch \<Rightarrow>
                   (case attachments msg of
                      None \<Rightarrow> Threw TypeError
                    | Some as \<Rightarrow>
                        finishNotification_earlier st msg ch
                          \<lparr>title = getName st (author msg) @ '' (#'' @ str (channel_name ch) @ '')'',
                           icon = getAvatarURL (author msg),
                           notification_body = content msg,
                           richBody = None,
                           image = None,
                           attachment_count = Some (length as),
                           permanent = Some False,
                           onClick = Some (SwitchChannels (guild_id ch) (channel_id ch))\<rparr>)))"

text \<open>
  The title of the earlier \<open>MESSAGE_CREATE\<close>, which starts as \<open>getName(message.author)\<close>:
  \<^verbatim>\<open>
  // If this channel is a group DM, include the channel name.
  if (channel.isGroupDM()) {
      let channelName = channel.name?.trim() ?? false;
      if (!channelName) { // If the channel doesn't have a set name, use the first 3 recipients.
          channelName = channel.rawRecipients.slice(0, 3).map(e => e.username).join(", ");
      }

      // Finally, truncate the channel name if it's too long.
      const truncatedChannelName = channelName.length > 20 ? channelName.substring(0, 20) + "..." : channelName;
      Notification.title = `${message.author.username} (${truncatedChannelName})`;
  }
  else if (channel.guild_id) // If this is a guild message and not a private message.
  {
      Notification.title = `${getName(message.author)} (#${channel.name})`;
  }
  \<close>
\<close>

definition title_earlier :: "env \<Rightarrow> earlier_message \<Rightarrow> channel \<Rightarrow> error + string" where
  "title_earlier st msg ch =
     (if isGroupDM ch
      then (let recipients =
                  (case rawRecipients ch of
                     None \<Rightarrow> Inl TypeError
                   | Some rs \<Rightarrow> Inr (join '', '' (map username (take 3 rs))))
            in case (case map_option trim (channel_name ch) of
                       None \<Rightarrow> recipients
                     | Some n \<Rightarrow> if n \<noteq> [] then Inr n else recipients) of
                 Inl e \<Rightarrow> Inl e
               | Inr channelName \<Rightarrow>
                   Inr (username (author msg) @ '' (''
                        @ (if length channelName > 20 then take 20 channelName @ ''...''
                           else channelName)
                        @ '')''))
      else if truthy (guild_id ch)
      then Inr (getName st (author msg) @ '' (#'' @ str (channel_name ch) @ '')'')
      else Inr (getName st (author msg)))"

text \<open>
  The first body of the earlier \<open>MESSAGE_CREATE\<close>, which starts as \<open>message.content\<close>:
  \<^verbatim>\<open>
  switch (message.type) {
      case MessageTypes.CALL: {
          Notification.body = "Started a call with you!";
          break;
      }
      case MessageTypes.CHANNEL_RECIPIENT_ADD: {
          const actor = UserStore.getUser(message.author.id);
          const targetUser = UserStore.getUser(message.mentions[0]?.id);

          Notification.body = `${getName(targetUser)} was added to the group by ${getName(actor)}.`;
          break;
      }
      case MessageTypes.CHANNEL_RECIPIENT_REMOVE: {
          const actor = UserStore.getUser(message.author.id);
          const targetUser = UserStore.getUser(message.mentions[0]?.id);

          if (actor.id !== targetUser.id) {
              Notification.body = `${getName(targetUser)} was removed from the group by ${getName(actor)}.`;
          } else {
              Notification.body = "Left the group.";
          }
          break;
      }
      case MessageTypes.CHANNEL_NAME_CHANGE: {
          Notification.body = `Changed the channel name to '${message.content}'.`;
          break;
      }
      case MessageTypes.CHANNEL_ICON_CHANGE: {
          Notification.body = "Changed the channel icon.";
          break;
      }
      case MessageTypes.CHANNEL_PINNED_MESSAGE: {
          Notification.body = "Pinned a message.";
          break;
      }
  }
  \<close>
\<close>

definition firstMentionedUser_earlier :: "env \<Rightarrow> earlier_message \<Rightarrow> error + user option" where
  "firstMentionedUser_earlier st msg =
     (case mentions msg of
        None \<Rightarrow> Inl TypeError
      | Some [] \<Rightarrow> Inr None
      | Some (m # _) \<Rightarrow> Inr (getUser st (user_id m)))"

definition body_earlier :: "env \<Rightarrow> earlier_message \<Rightarrow> error + string" where
  "body_earlier st msg =
     (case message_type msg of
        CALL \<Rightarrow> Inr ''Started a call with you!''
      | CHANNEL_RECIPIENT_ADD \<Rightarrow>
          (let actor = getUser st (user_id (author msg)) in
           case firstMentionedUser_earlier st msg of
             Inl e \<Rightarrow> Inl e
           | Inr targetUser \<Rightarrow>
               (case targetUser of
                  None \<Rightarrow> Inl TypeError
                | Some t \<Rightarrow>
                    (case actor of
                       None \<Rightarrow> Inl TypeError
                     | Some a \<Rightarrow>
                         Inr (getName st t @ '' was added to the group by '' @ getName st a @ ''.''))))
      | CHANNEL_RECIPIENT_REMOVE \<Rightarrow>
          (let actor = getUser st (user_id (author msg)) in
           case firstMentionedUser_earlier st msg of
             Inl e \<Rightarrow> Inl e
           | Inr targetUser \<Rightarrow>
               (case actor of
                  None \<Rightarrow> Inl TypeError
                | Some a \<Rightarrow>
                    (case targetUser of
                       None \<Rightarrow> Inl TypeError
                     | Some t \<Rightarrow>
                         if user_id a \<noteq> user_id t
                         then Inr (getName st t @ '' was removed from the group by '' @ getName st a
                                   @ ''.'')
                         else Inr ''Left the group.'')))
      | CHANNEL_NAME_CHANGE \<Rightarrow> Inr (''Changed the channel name to '' @ [CHR 0x27] @ content msg
                                     @ [CHR 0x27] @ ''.'')
      | CHANNEL_ICON_CHANGE \<Rightarrow> Inr ''Changed the channel icon.''
      | CHANNEL_PINNED_MESSAGE \<Rightarrow> Inr ''Pinned a message.''
      | OTHER_MESSAGE_TYPE \<Rightarrow> Inr (content msg))"

text \<open>
  \<^verbatim>\<open>
  async MESSAGE_CREATE({ message }: { message: Message; }) {
      const channel: Channel = ChannelStore.getChannel(message.channel_id);
      const currentUser = UserStore.getCurrentUser();

      const streamerMode = settings.store.disableInStreamerMode;
      const currentUserStreamerMode = Vencord.Webpack.findStore("StreamerModeStore").enabled;

      if (streamerMode && currentUserStreamerMode) return;

      if (channel.guild_id) { // If this is a guild message and not a private message.
          if (!ignoredUsers.includes(message.author.id)) {
              handleGuildMessage(message);
          }
          return;
      }
      // Determine whether or not to show notifications.
      if (
          (
              (message.author.id === currentUser.id) // If message is from the user.
              || (!MuteStore.allowAllMessages(channel)) // If user has muted the channel.
              || (channel.id === SelectedChannelStore.getChannelId()) // If the user is currently in the channel.
              || (ignoredUsers.includes(message.author.id)) // If the user is ignored.
              || (!settings.store.directMessages && channel.isDM()) // If the user has disabled DM notifications.
              || (!settings.store.groupMessages && channel.isGroupDM()) // If the user has disabled group DM notifications.
          )
      ) return;

      // Prepare the notification.
      const Notification: NotificationData = {
          title: getName(message.author),
          icon: `https://cdn.discordapp.com/avatars/${message.author.id}/${message.author.avatar}.png?size=128`,
          body: message.content,
          attachments: message.attachments.length,
          richBody: null,
          permanent: false,
          onClick() { SelectedChannelActionCreators.selectPrivateChannel(message.channel_id); }
      };

      ... (title, switch, and the rest as above) ...

      Notification.body = limitMessageLength(Notification.body, Notification.attachments > 0);
      showNotification(Notification);
  }
  \<close>
  The guild branch comes before the test on the author.
\<close>

definition MESSAGE_CREATE_earlier :: "env \<Rightarrow> earlier_message \<Rightarrow> outcome" where
  "MESSAGE_CREATE_earlier st msg =
     (let channel = getChannel st (message_channel_id msg);
          currentUser = getCurrentUser st
      in if disableInStreamerMode st \<and> streamerModeEnabled st then NoNotification
         else (case channel of
                 None \<Rightarrow> Threw TypeError
               | Some ch \<Rightarrow>
                   if truthy (guild_id ch)
                   then (if user_id (author msg) \<notin> set (ignoredUsers st)
                         then handleGuildMessage_earlier st msg
                         else NoNotification)
                   else if user_id (author msg) = user_id currentUser
                           \<or> \<not> allowAllMessages st ch
                           \<or> Some (channel_id ch) = selectedChannelId st
                           \<or> user_id (author msg) \<in> set (ignoredUsers st)
                           \<or> (\<not> directMessages st \<and> isDM ch)
                           \<or> (\<not> groupMessages st \<and> isGroupDM ch)
                   then NoNotification
                   else (case attachments msg of
                           None \<Rightarrow> Threw TypeError
                         | Some as \<Rightarrow>
                             (case title_earlier st msg ch of
                                Inl e \<Rightarrow> Threw e
                              | Inr title1 \<Rightarrow>
                                  (case body_earlier st msg of
                                     Inl e \<Rightarrow> Threw e
                                   | Inr body1 \<Rightarrow>
                                       finishNotification_earlier st msg ch
                                         \<lparr>title = title1,
                                          icon = getAvatarURL (author msg),
                                          notification_body = body1,
                                          richBody = None,
                                          image = None,
                                          attachment_count = Some (length as),
                                          permanent = Some False,
                                          onClick = Some (SelectPrivateChannel
                                                            (message_channel_id msg))\<rparr>)))))"

section \<open>The effective notification level, in the words of the spec\<close>

text \<open>
  The explicit per-channel override if there is one, else the per-guild default if there
  is one, else "no messages".
\<close>

definition spec_effective_level :: "env \<Rightarrow> channel \<Rightarrow> NotificationLevel" where
  "spec_effective_level st ch =
     (case Option.bind (userGuildSettings st (guild_id ch)) (\<lambda>s. channelOverride s ch) of
        Some override \<Rightarrow> override
      | None \<Rightarrow>
          (case Option.bind (userGuildSettings st (guild_id ch)) message_notifications of
             Some guildDefault \<Rightarrow> guildDefault
           | None \<Rightarrow> NO_MESSAGES))"

section \<open>The example scenario of the spec\<close>

text \<open>
  A guild channel, a friend of the current user as author, friend-server-notifications
  enabled, and the body \<open>hello <@111111111111111111> check <#222222222222222222>\<close>
  without attachments.
\<close>

definition example_author :: user where
  "example_author = \<lparr>user_id = ''333333333333333333'', username = ''bob'', avatar = ''abc''\<rparr>"

definition example_me :: user where
  "example_me = \<lparr>user_id = ''444444444444444444'', username = ''me'', avatar = ''def''\<rparr>"

definition example_channel :: channel where
  "example_channel =
     \<lparr>channel_id = ''555555555555555555'', guild_id = Some ''666666666666666666'',
      channel_name = Some ''general'', rawRecipients = None, isDM = False, isGroupDM = False\<rparr>"

definition example_dm_channel :: channel where
  "example_dm_channel =
     \<lparr>channel_id = ''888888888888888888'', guild_id = None, channel_name = Some [],
      rawRecipients = Some [example_author], isDM = True, isGroupDM = False\<rparr>"

definition example_env :: env where
  "example_env =
     \<lparr>determineServerNotifications = True, disableInStreamerMode = True,
      directMessages = True, groupMessages = True, friendServerNotifications = True,
      friendActivity = True, streamingTreatment = NORMAL, disableMessageBody = False,
      ignoredUsers = [], notifyFor = [],
      getChannel = (\<lambda>c. if c = ''555555555555555555'' then Some example_channel
                         else if c = ''888888888888888888'' then Some example_dm_channel
                         else None),
      hasChannel = (\<lambda>c. c = ''555555555555555555''),
      getUser = (\<lambda>u. if u = ''333333333333333333'' then Some example_author else None),
      getCurrentUser = example_me,
      getGuild = (\<lambda>g. if g = ''666666666666666666'' then Some \<lparr>getRole = (\<lambda>r. None)\<rparr>
                        else None),
      getNickname = (\<lambda>u. None),
      utilsGetName = username,
      isFriend = (\<lambda>u. u = ''333333333333333333''),
      selectedChannelId = None,
      isChannelMuted = (\<lambda>c. False),
      allowAllMessages = (\<lambda>c. True),
      isGuildOrCategoryOrChannelMuted = (\<lambda>g c. False),
      userGuildSettings = (\<lambda>g. None),
      activeStreams = None,
      streamerModeEnabled = False\<rparr>"

definition example_message :: message where
  "example_message =
     \<lparr>message_channel_id = ''555555555555555555'', author = example_author,
      content = ''hello <@111111111111111111> check <#222222222222222222>'',
      message_type = OTHER_MESSAGE_TYPE, mentions = Some [''111111111111111111''],
      mentionRoles = None, embeds = None, stickerItems = None, attachments = Some []\<rparr>"

definition example_notification :: NotificationData where
  "example_notification =
     \<lparr>title = ''bob (#general)'',
      icon = ''https://cdn.discordapp.com/avatars/333333333333333333/abc.png?size=128'',
      notification_body = ''hello <@111111111111111111> check <#222222222222222222>'',
      richBody = Some [Text ''hello '',
                       Span ''user-111111111111111111'' (Some ''@unknown-user''),
                       Text '' check '',
                       Span ''channel-222222222222222222'' (Some ''#unknown-channel'')],
      image = None, attachment_count = Some 0, permanent = Some False,
      onClick = Some (SwitchChannels (Some ''666666666666666666'') ''555555555555555555'')\<rparr>"

text \<open>The same scenario with every message body redacted.\<close>

definition example_redacting_env :: env where
  "example_redacting_env = example_env\<lparr>disableMessageBody := True\<rparr>"

definition example_redacted_notification :: NotificationData where
  "example_redacted_notification =
     example_notification\<lparr>notification_body := ''Message content has been redacted.'',
                           richBody := None\<rparr>"

text \<open>
  A message of 35 characters with an image attached, so that the body is cut at 30, and
  the notification built for it.
\<close>

definition example_long_message :: message where
  "example_long_message =
     example_message
       \<lparr>content := ''<@111111111111111111> hello world!!'',
        attachments := Some [\<lparr>content_type = Some ''image/png'', filename = ''a.png'',
                              url = ''https://cdn.example/a.png''\<rparr>]\<rparr>"

definition example_long_notification :: NotificationData where
  "example_long_notification =
     \<lparr>title = ''bob (#general)'',
      icon = ''https://cdn.discordapp.com/avatars/333333333333333333/abc.png?size=128'',
      notification_body = ''<@111111111111111111> hello...'',
      richBody = Some [Text [],
                       Span ''user-111111111111111111'' (Some ''@unknown-user''),
                       Text '' hello world!!''],
      image = Some ''https://cdn.example/a.png'', attachment_count = Some 1,
      permanent = Some False,
      onClick = Some (SwitchChannels (Some ''666666666666666666'') ''555555555555555555'')\<rparr>"



text \<open>A new friend.\<close>

definition example_relationship :: relationship where
  "example_relationship = \<lparr>relationship_user = example_author, relationship_type = FRIEND\<rparr>"

definition example_friend_notification :: NotificationData where
  "example_friend_notification =
     \<lparr>title = ''bob is now your friend'',
      icon = ''https://cdn.discordapp.com/avatars/333333333333333333/abc.png?size=128'',
      notification_body = ''You can now message them directly.'',
      richBody = None, image = None, attachment_count = Some 0, permanent = None,
      onClick = Some (SwitchChannels None ''333333333333333333'')\<rparr>"

definition example_request_notification :: NotificationData where
  "example_request_notification =
     \<lparr>title = ''bob sent you a friend request'',
      icon = ''https://cdn.discordapp.com/avatars/333333333333333333/abc.png?size=128'',
      notification_body = ''You can accept or decline it in the Friends tab.'',
      richBody = None, image = None, attachment_count = Some 0, permanent = None,
      onClick = Some (SwitchChannels None [])\<rparr>"

text \<open>
  For the earlier revision: a message of the current user in a guild channel that is on
  the always-notify list, with the notification the earlier handler shows for it.
\<close>

definition example_notifying_env :: env where
  "example_notifying_env = example_env\<lparr>notifyFor := [''555555555555555555'']\<rparr>"

definition example_own_message :: earlier_message where
  "example_own_message =
     \<lparr>message_channel_id = ''555555555555555555'', author = example_me,
      content = ''hello'', message_type = OTHER_MESSAGE_TYPE, mentions = Some [],
      mentionRoles = None, embeds = Some [], stickerItems = None, attachments = Some []\<rparr>"

definition example_own_notification :: NotificationData where
  "example_own_notification =
     \<lparr>title = ''me (#general)'',
      icon = ''https://cdn.discordapp.com/avatars/444444444444444444/def.png?size=128'',
      notification_body = ''hello'',
      richBody = None, image = None, attachment_count = Some 0, permanent = Some False,
      onClick = Some (SwitchChannels (Some ''666666666666666666'') ''555555555555555555'')\<rparr>"

text \<open>
  For the earlier revision: a direct message with text behind its one mention, and one
  with an emote token inside angle brackets, each with its notification.
\<close>

definition example_mentioned :: user where
  "example_mentioned = \<lparr>user_id = ''111111111111111111'', username = ''carol'', avatar = ''ghi''\<rparr>"

definition example_tail_message :: earlier_message where
  "example_tail_message =
     \<lparr>message_channel_id = ''888888888888888888'', author = example_author,
      content = ''hi <@111111111111111111> bye'', message_type = OTHER_MESSAGE_TYPE,
      mentions = Some [example_mentioned], mentionRoles = None, embeds = Some [],
      stickerItems = None, attachments = Some []\<rparr>"

definition example_tail_notification :: NotificationData where
  "example_tail_notification =
     \<lparr>title = ''bob'',
      icon = ''https://cdn.discordapp.com/avatars/333333333333333333/abc.png?size=128'',
      notification_body = ''hi <@111111111111111111> bye'',
      richBody = Some [Text ''hi '',
                       Span ''user-111111111111111111'' (Some ''@unknown-user'')],
      image = None, attachment_count = Some 0, permanent = Some False,
      onClick = Some (SelectPrivateChannel ''888888888888888888'')\<rparr>"

definition example_emote_message :: earlier_message where
  "example_emote_message =
     example_tail_message\<lparr>content := ''<<:x:1>7> <:x:7>'', mentions := Some []\<rparr>"

definition example_emote_notification :: NotificationData where
  "example_emote_notification =
     example_tail_notification\<lparr>notification_body := '':x: :x:'', richBody := None\<rparr>"

text \<open>A state of the host whose user store holds no user.\<close>

definition example_env_without_users :: env where
  "example_env_without_users = example_env\<lparr>getUser := (\<lambda>u. None)\<rparr>"

section \<open>Properties of the truncation\<close>

lemma limitMessageLength_earlier_eq:
  "limitMessageLength_earlier body hasAttachments = limitMessageLength body hasAttachments"
  by (simp add: limitMessageLength_earlier_def limitMessageLength_def Let_def)

text \<open>
  Claim C4 says that with attachments the result is a string of length at most 30 ending
  in an ellipsis if and only if the body is longer than 30. A short body that itself ends
  in an ellipsis is returned unchanged: the result has at most 30 characters and ends in
  an ellipsis, and the body is not longer than 30. The same holds without attachments.
\<close>

theorem limitMessageLength_iff_counterexample:
  "limitMessageLength ''wait...'' True = ''wait...'' \<and>
   length (limitMessageLength ''wait...'' True) \<le> 30 \<and>
   suffix ''...'' (limitMessageLength ''wait...'' True) \<and>
   \<not> length ''wait...'' > 30 \<and>
   limitMessageLength ''wait...'' False = ''wait...'' \<and>
   length (limitMessageLength ''wait...'' False) \<le> 165 \<and>
   suffix ''...'' (limitMessageLength ''wait...'' False) \<and>
   \<not> length ''wait...'' > 165"
  by (simp add: limitMessageLength_def suffix_def)

text \<open>
  Claim C4, amended. With attachments, a body longer than 30 is cut to its first 27
  characters followed by an ellipsis, 30 characters in all, and a body of at most 30
  characters comes back unchanged; so the result differs from the body if and only if
  the body is longer than 30. Without attachments the same holds with 165 and 162. The
  function of the earlier revision computes the same results.
\<close>

theorem limitMessageLength_truncation:
  "(length body > 30 \<longrightarrow>
      limitMessageLength body True = take 27 body @ ''...'' \<and>
      length (limitMessageLength body True) = 30 \<and>
      suffix ''...'' (limitMessageLength body True)) \<and>
   (\<not> length body > 30 \<longrightarrow> limitMessageLength body True = body) \<and>
   (limitMessageLength body True \<noteq> body \<longleftrightarrow> length body > 30) \<and>
   (length body > 165 \<longrightarrow>
      limitMessageLength body False = take 162 body @ ''...'' \<and>
      length (limitMessageLength body False) = 165 \<and>
      suffix ''...'' (limitMessageLength body False)) \<and>
   (\<not> length body > 165 \<longrightarrow> limitMessageLength body False = body) \<and>
   (limitMessageLength body False \<noteq> body \<longleftrightarrow> length body > 165) \<and>
   limitMessageLength_earlier body hasAttachments = limitMessageLength body hasAttachments"
proof -
  have a: "length body > 30 \<Longrightarrow> take 27 body @ ''...'' \<noteq> body"
  proof
    assume "length body > 30" and "take 27 body @ ''...'' = body"
    then have "length (take 27 body @ ''...'') = length body" by simp
    with \<open>length body > 30\<close> show False by simp
  qed
  have b: "length body > 165 \<Longrightarrow> take 162 body @ ''...'' \<noteq> body"
  proof
    assume "length body > 165" and "take 162 body @ ''...'' = body"
    then have "length (take 162 body @ ''...'') = length body" by simp
    with \<open>length body > 165\<close> show False by simp
  qed
  show ?thesis
    using a b
    by (auto simp: limitMessageLength_def suffix_def limitMessageLength_earlier_eq)
qed

theorem limitMessageLength_truncation_witness:
  "limitMessageLength ''0123456789012345678901234567890'' True
     = ''012345678901234567890123456...'' \<and>
   limitMessageLength ''short'' True = ''short'' \<and>
   limitMessageLength ''0123456789012345678901234567890'' False
     = ''0123456789012345678901234567890''"
  using limitMessageLength_truncation [of "''0123456789012345678901234567890''"]
    limitMessageLength_truncation [of "''short''"]
  by simp

section \<open>Properties of the emote normalization\<close>

lemma takeWhile_stop: "\<not> P y \<Longrightarrow> takeWhile P (xs @ y # ys) = takeWhile P xs"
  by (induction xs) auto

lemma dropWhile_stop: "\<not> P y \<Longrightarrow> dropWhile P (xs @ y # ys) = dropWhile P xs @ y # ys"
  by (induction xs) auto

lemma lit_SomeD: "lit c s = Some r \<Longrightarrow> s = c # r"
  by (auto simp: lit_def split: list.splits if_splits)

lemma many1_SomeD: "many1 P s = Some r \<Longrightarrow> \<exists>w. w \<noteq> [] \<and> s = w @ r"
proof -
  assume "many1 P s = Some r"
  then have "takeWhile P s \<noteq> []" and "r = dropWhile P s"
    by (auto simp: many1_def split: if_splits)
  moreover have "s = takeWhile P s @ dropWhile P s" by simp
  ultimately show ?thesis by metis
qed

lemma lit_app:
  "c \<noteq> z \<Longrightarrow> lit c (x @ z # r) = map_option (\<lambda>t. t @ z # r) (lit c x)"
  by (cases x) (auto simp: lit_def)

lemma many1_app:
  "\<not> P z \<Longrightarrow> many1 P (x @ z # r) = map_option (\<lambda>t. t @ z # r) (many1 P x)"
  by (simp add: many1_def takeWhile_stop dropWhile_stop)

lemma bind_app:
  assumes "m1 (x @ z) = map_option (\<lambda>t. t @ z) (m1 x)"
    and "\<And>y. m2 (y @ z) = map_option (\<lambda>t. t @ z) (m2 y)"
  shows "(m1 (x @ z) \<bind> m2) = map_option (\<lambda>t. t @ z) (m1 x \<bind> m2)"
  using assms by (cases "m1 x") auto

lemma emote_tail_SomeD:
  assumes "emote_tail s = Some r" shows "\<exists>w. w \<noteq> [] \<and> s = w @ r"
proof -
  from assms obtain r1 r2 r3 r4 where
    "lit CHR '':'' s = Some r1" "many1 is_word r1 = Some r2" "lit CHR '':'' r2 = Some r3"
    "many1 is_digit r3 = Some r4" "lit CHR ''>'' r4 = Some r"
    by (auto simp: emote_tail_def bind_eq_Some_conv)
  then obtain w d where "s = CHR '':'' # r1" "r1 = w @ r2" "r2 = CHR '':'' # r3"
    "r3 = d @ r4" "r4 = CHR ''>'' # r"
    by (metis lit_SomeD many1_SomeD)
  then have "s = (CHR '':'' # w @ CHR '':'' # d @ ''>'') @ r" by simp
  then show ?thesis by blast
qed

lemma emote_alt_SomeD:
  assumes "orelse (lit CHR ''a'' r \<bind> emote_tail) (emote_tail r) = Some rest"
  shows "\<exists>w. r = w @ rest"
proof (cases "lit CHR ''a'' r \<bind> emote_tail")
  case None
  with assms have "emote_tail r = Some rest" by (simp add: orelse_def)
  then show ?thesis using emote_tail_SomeD by blast
next
  case (Some x)
  with assms have "x = rest" by (simp add: orelse_def)
  with Some obtain r' where "lit CHR ''a'' r = Some r'" "emote_tail r' = Some rest"
    by (auto simp: bind_eq_Some_conv)
  then show ?thesis using lit_SomeD emote_tail_SomeD by (metis append_Cons)
qed

lemma emote_at_prefix:
  assumes "emote_at s = Some m" shows "m \<noteq> [] \<and> (\<exists>rest. s = m @ rest)"
proof -
  from assms obtain r rest where r: "lit CHR ''<'' s = Some r"
    and alt: "orelse (lit CHR ''a'' r \<bind> emote_tail) (emote_tail r) = Some rest"
    and m: "m = matched s rest"
    by (auto simp: emote_at_def bind_eq_Some_conv)
  from r have s: "s = CHR ''<'' # r" by (rule lit_SomeD)
  from alt obtain w where "r = w @ rest" using emote_alt_SomeD by blast
  with s m have "m = CHR ''<'' # w" "s = (CHR ''<'' # w) @ rest"
    by (simp_all add: matched_def)
  then show ?thesis by blast
qed

lemma emote_tail_app:
  "emote_tail (x @ CHR ''<'' # r) = map_option (\<lambda>t. t @ CHR ''<'' # r) (emote_tail x)"
  unfolding emote_tail_def
  by (intro bind_app lit_app many1_app) (simp_all add: is_word_def is_digit_def)

lemma emote_at_append:
  assumes "pre \<noteq> []" shows "emote_at (pre @ CHR ''<'' # r) = emote_at pre"
proof -
  from assms obtain c cs where pre: "pre = c # cs" by (cases pre) auto
  show ?thesis
  proof (cases "c = CHR ''<''")
    case False
    with pre show ?thesis by (simp add: emote_at_def lit_def)
  next
    case True
    let ?z = "CHR ''<'' # r"
    have a: "(lit CHR ''a'' (cs @ ?z) \<bind> emote_tail)
               = map_option (\<lambda>t. t @ ?z) (lit CHR ''a'' cs \<bind> emote_tail)"
      by (intro bind_app lit_app emote_tail_app) simp
    have alt: "orelse (lit CHR ''a'' (cs @ ?z) \<bind> emote_tail) (emote_tail (cs @ ?z))
               = map_option (\<lambda>t. t @ ?z) (orelse (lit CHR ''a'' cs \<bind> emote_tail) (emote_tail cs))"
      unfolding a emote_tail_app
      by (cases "lit CHR ''a'' cs \<bind> emote_tail") (simp_all add: orelse_def)
    show ?thesis
    proof (cases "orelse (lit CHR ''a'' cs \<bind> emote_tail) (emote_tail cs)")
      case None
      with pre True alt show ?thesis by (simp add: emote_at_def lit_def)
    next
      case (Some rest)
      then obtain w where "cs = w @ rest" using emote_alt_SomeD by blast
      with pre True alt Some show ?thesis
        by (simp add: emote_at_def lit_def matched_def)
    qed
  qed
qed

lemma many1_all:
  "w \<noteq> [] \<Longrightarrow> \<forall>c\<in>set w. P c \<Longrightarrow> \<not> P z \<Longrightarrow> many1 P (w @ z # r) = Some (z # r)"
  by (simp add: many1_def takeWhile_stop dropWhile_stop)

lemma emote_tail_token:
  assumes "name \<noteq> []" "\<forall>c\<in>set name. is_word c" "eid \<noteq> []" "\<forall>c\<in>set eid. is_digit c"
  shows "emote_tail (CHR '':'' # name @ CHR '':'' # eid @ CHR ''>'' # post) = Some post"
proof -
  have w: "many1 is_word (name @ CHR '':'' # eid @ CHR ''>'' # post) = Some (CHR '':'' # eid @ CHR ''>'' # post)"
    using assms by (intro many1_all) (simp_all add: is_word_def)
  have d: "many1 is_digit (eid @ CHR ''>'' # post) = Some (CHR ''>'' # post)"
    using assms by (intro many1_all) (simp_all add: is_digit_def)
  show ?thesis by (simp add: emote_tail_def lit_def w d)
qed

lemma matched_app: "matched (w @ rest) rest = w"
  by (simp add: matched_def)

lemma emote_at_token:
  assumes "name \<noteq> []" "\<forall>c\<in>set name. is_word c" "eid \<noteq> []" "\<forall>c\<in>set eid. is_digit c"
  shows "emote_at (emote_token animated name eid @ post) = Some (emote_token animated name eid)"
proof -
  let ?tok = "emote_token animated name eid"
  have "(lit CHR ''<'' (?tok @ post) \<bind> (\<lambda>r. orelse (lit CHR ''a'' r \<bind> emote_tail) (emote_tail r)))
          = Some post"
    using emote_tail_token [OF assms, of post]
    by (cases animated) (simp_all add: emote_token_def lit_def orelse_def)
  then have "emote_at (?tok @ post) = Some (matched (?tok @ post) post)"
    by (simp add: emote_at_def)
  then show ?thesis by (simp only: matched_app)
qed

lemma split_on_no_sep: "d \<notin> set xs \<Longrightarrow> split_on d xs = [xs]"
  by (induction xs) auto

lemma split_on_app: "d \<notin> set xs \<Longrightarrow> split_on d (xs @ d # ys) = xs # split_on d ys"
  by (induction xs) auto

lemma word_not_colon: "is_word c \<Longrightarrow> c \<noteq> CHR '':''"
  by (auto simp: is_word_def)

lemma emote_replacer_token:
  assumes "\<forall>c\<in>set name. is_word c"
  shows "index_str (split_on CHR '':'' (emote_token animated name eid)) 1 = name"
proof -
  have n: "CHR '':'' \<notin> set name" using assms word_not_colon by blast
  have "CHR '':'' \<notin> set (if animated then ''<a'' else ''<'')" by simp
  then have "split_on CHR '':'' (emote_token animated name eid)
      = (if animated then ''<a'' else ''<'') # name # split_on CHR '':'' (eid @ ''>'')"
    using split_on_app [of "CHR '':''" "if animated then ''<a'' else ''<''" "name @ '':'' @ eid @ ''>''"]
      split_on_app [OF n, of "eid @ ''>''"]
    by (simp add: emote_token_def)
  then show ?thesis by (simp add: index_str_def)
qed

lemma formatEmotes_Cons:
  "formatEmotes (c # cs) =
     (case emote_at (c # cs) of
        None \<Rightarrow> c # formatEmotes cs
      | Some m \<Rightarrow>
          if m = [] then '':'' @ index_str (split_on CHR '':'' m) 1 @ '':'' @ c # formatEmotes cs
          else '':'' @ index_str (split_on CHR '':'' m) 1 @ '':'' @ formatEmotes (drop (length m) (c # cs)))"
  by (simp add: formatEmotes_def split: option.splits)

lemma emote_at_Nil: "emote_at [] = None"
  by (simp add: emote_at_def lit_def)

lemma formatEmotes_Nil: "formatEmotes [] = []"
  by (simp add: formatEmotes_def emote_at_Nil)

lemma formatEmotes_token_head:
  assumes "name \<noteq> []" "\<forall>c\<in>set name. is_word c" "eid \<noteq> []" "\<forall>c\<in>set eid. is_digit c"
  shows "formatEmotes (emote_token animated name eid @ post) = '':'' @ name @ '':'' @ formatEmotes post"
proof -
  let ?tok = "emote_token animated name eid"
  obtain c cs where tok: "?tok = c # cs" by (cases ?tok) (auto simp: emote_token_def)
  have "formatEmotes (?tok @ post) = formatEmotes (c # cs @ post)" by (simp add: tok)
  also have "\<dots> = '':'' @ name @ '':'' @ formatEmotes (drop (length ?tok) (?tok @ post))"
    using emote_at_token [OF assms, of animated post] emote_replacer_token [OF assms(2), of animated eid]
    unfolding formatEmotes_Cons by (simp add: tok [symmetric]) (simp add: tok)
  finally show ?thesis by simp
qed

lemma formatEmotes_before_token:
  assumes "name \<noteq> []" "\<forall>c\<in>set name. is_word c" "eid \<noteq> []" "\<forall>c\<in>set eid. is_digit c"
  shows "formatEmotes (pre @ emote_token animated name eid @ post)
           = formatEmotes pre @ '':'' @ name @ '':'' @ formatEmotes post"
proof (induction "length pre" arbitrary: pre rule: less_induct)
  case less
  let ?tok = "emote_token animated name eid"
  show ?case
  proof (cases pre)
    case Nil
    then show ?thesis
      using formatEmotes_token_head [OF assms] by (simp add: formatEmotes_Nil)
  next
    case (Cons c cs)
    obtain r where tok: "?tok @ post = CHR ''<'' # r"
      by (cases animated) (simp_all add: emote_token_def)
    have at: "emote_at (pre @ ?tok @ post) = emote_at pre"
      unfolding tok using Cons by (intro emote_at_append) simp
    show ?thesis
    proof (cases "emote_at pre")
      case None
      with at Cons less.hyps [of cs] show ?thesis
        by (simp add: formatEmotes_Cons)
    next
      case (Some m)
      with emote_at_prefix obtain rest where m: "m \<noteq> []" "pre = m @ rest" by blast
      then have "length rest < length pre" by simp
      from less.hyps [OF this]
      have "formatEmotes (rest @ ?tok @ post) = formatEmotes rest @ '':'' @ name @ '':'' @ formatEmotes post" .
      moreover have "drop (length m) (c # cs @ ?tok @ post) = rest @ ?tok @ post"
        using m Cons by (metis append_Cons append_assoc append_eq_conv_conj)
      moreover have "drop (length m) (c # cs) = rest"
        using m Cons by (metis append_eq_conv_conj)
      ultimately show ?thesis
        using at Some Cons m(1) by (simp add: formatEmotes_Cons)
    qed
  qed
qed

lemma formatEmotes_unchanged:
  "CHR ''<'' \<notin> set s \<Longrightarrow> formatEmotes s = s"
proof (induction s)
  case Nil
  then show ?case by (simp add: formatEmotes_Nil)
next
  case (Cons c cs)
  from Cons.prems have "c \<noteq> CHR ''<''" by auto
  then have "emote_at (c # cs) = None" by (simp add: emote_at_def lit_def)
  with Cons show ?case by (simp add: formatEmotes_Cons)
qed

lemma formatEmotes_no_token:
  assumes "\<forall>i. emote_at (drop i s) = None"
  shows "formatEmotes s = s"
  using assms
proof (induction s)
  case Nil
  then show ?case by (simp add: formatEmotes_Nil)
next
  case (Cons c cs)
  from Cons.prems [rule_format, of 0] have h: "emote_at (c # cs) = None" by simp
  have "\<forall>i. emote_at (drop i cs) = None"
  proof
    fix i
    from Cons.prems [rule_format, of "Suc i"] show "emote_at (drop i cs) = None" by simp
  qed
  with Cons.IH h show ?case by (simp add: formatEmotes_Cons)
qed

text \<open>
  The later revision. For every name (one or more word characters) and numeric id (one or
  more digits), a static token \<open><:name:id>\<close> and an animated token \<open><a:name:id>\<close>
  anywhere in a body become \<open>:name:\<close>, and the text before and behind is normalized on
  its own; text in which the pattern matches nowhere, so any text without \<open><\<close>, is left
  as it is.
\<close>

lemma formatEmotes_later_normalizes_token:
  assumes "name \<noteq> []" and "\<forall>c\<in>set name. is_word c"
    and "eid \<noteq> []" and "\<forall>c\<in>set eid. is_digit c"
  shows "formatEmotes (pre @ emote_token animated name eid @ post)
           = formatEmotes pre @ '':'' @ name @ '':'' @ formatEmotes post \<and>
         ((\<forall>i. emote_at (drop i pre) = None) \<and> (\<forall>i. emote_at (drop i post) = None) \<longrightarrow>
            formatEmotes (pre @ emote_token animated name eid @ post)
              = pre @ '':'' @ name @ '':'' @ post) \<and>
         ((\<forall>i. emote_at (drop i plain) = None) \<longrightarrow> formatEmotes plain = plain) \<and>
         (CHR ''<'' \<notin> set plain \<longrightarrow> formatEmotes plain = plain)"
  using formatEmotes_before_token [OF assms, of pre animated post]
    formatEmotes_no_token [of pre] formatEmotes_no_token [of post]
    formatEmotes_no_token [of plain] formatEmotes_unchanged [of plain]
  by simp

text \<open>
  Claim C9. The claim holds of \<open>formatEmotes\<close> of the later revision, as shown above. The
  earlier revision, which the claim cites as well, replaces in a loop: for every match
  of the pattern in the first body it replaces all occurrences of the matched text in
  the current body. A replacement can so complete the text of a later match: in
  \<open><<:x:1>7> <:x:7>\<close> the two tokens are \<open><:x:1>\<close> and \<open><:x:7>\<close>, replacing the first
  leaves \<open><:x:7> <:x:7>\<close>, and replacing the second then changes the \<open><\<close> and \<open>7>\<close>
  around the first token too. The later revision leaves them as they are.
\<close>

theorem earlier_emotes_change_other_text:
  "MESSAGE_CREATE_earlier example_env example_emote_message = Shown example_emote_notification \<and>
   notification_body example_emote_notification = '':x: :x:'' \<and>
   match_global emote_at ''<<:x:1>7> <:x:7>'' = [''<:x:1>'', ''<:x:7>''] \<and>
   formatEmotes_earlier ''<<:x:1>7> <:x:7>'' = '':x: :x:'' \<and>
   formatEmotes ''<<:x:1>7> <:x:7>'' = ''<:x:7> :x:''"
  by code_simp

theorem earlier_emotes_change_other_text_witness:
  "formatEmotes_earlier ''<<:x:1>7> <:x:7>'' \<noteq> formatEmotes ''<<:x:1>7> <:x:7>''"
  using earlier_emotes_change_other_text by simp

section \<open>Properties of the mention substitution\<close>

lemma id_gt_SomeD:
  assumes "id_gt s = Some (d, rest)" shows "\<exists>w. w \<noteq> [] \<and> s = w @ rest"
proof -
  from assms have d: "d = takeWhile is_digit s" and "lit CHR ''>'' (dropWhile is_digit s) = Some rest"
    by (auto simp: id_gt_def Let_def split: if_splits)
  then have "dropWhile is_digit s = CHR ''>'' # rest" by (simp add: lit_SomeD)
  moreover have "s = takeWhile is_digit s @ dropWhile is_digit s" by simp
  ultimately have "s = (d @ ''>'') @ rest" using d by simp
  then show ?thesis by blast
qed

lemma user_alt_SomeD:
  assumes "user_alt s = Some (d, rest)" shows "\<exists>w. w \<noteq> [] \<and> s = w @ rest"
proof -
  from assms obtain r1 r2 where r1: "lit CHR ''<'' s = Some r1" and r2: "lit CHR ''@'' r1 = Some r2"
    and alt: "orelse (lit CHR ''!'' r2 \<bind> id_gt) (id_gt r2) = Some (d, rest)"
    by (auto simp: user_alt_def bind_eq_Some_conv)
  have "\<exists>w. r2 = w @ rest"
  proof (cases "lit CHR ''!'' r2 \<bind> id_gt")
    case None
    with alt have "id_gt r2 = Some (d, rest)" by (simp add: orelse_def)
    then show ?thesis using id_gt_SomeD by blast
  next
    case (Some x)
    with alt obtain r3 where "lit CHR ''!'' r2 = Some r3" "id_gt r3 = Some (d, rest)"
      by (auto simp: orelse_def bind_eq_Some_conv)
    then show ?thesis using lit_SomeD id_gt_SomeD by (metis append_Cons)
  qed
  then obtain w where "r2 = w @ rest" ..
  with lit_SomeD [OF r1] lit_SomeD [OF r2] have "s = (''<@'' @ w) @ rest" by simp
  then show ?thesis by blast
qed

lemma channel_alt_SomeD:
  assumes "channel_alt s = Some (d, rest)" shows "\<exists>w. w \<noteq> [] \<and> s = w @ rest"
proof -
  from assms obtain r1 r2 where r1: "lit CHR ''<'' s = Some r1" and r2: "lit CHR ''#'' r1 = Some r2"
    and "id_gt r2 = Some (d, rest)"
    by (auto simp: channel_alt_def bind_eq_Some_conv)
  then obtain w where "r2 = w @ rest" using id_gt_SomeD by blast
  with lit_SomeD [OF r1] lit_SomeD [OF r2] have "s = (''<#'' @ w) @ rest" by simp
  then show ?thesis by blast
qed

lemma role_alt_SomeD:
  assumes "role_alt s = Some (d, rest)" shows "\<exists>w. w \<noteq> [] \<and> s = w @ rest"
proof -
  from assms obtain r1 r2 r3 where r1: "lit CHR ''<'' s = Some r1" and r2: "lit CHR ''@'' r1 = Some r2"
    and r3: "lit CHR ''&'' r2 = Some r3" and "id_gt r3 = Some (d, rest)"
    by (auto simp: role_alt_def bind_eq_Some_conv)
  then obtain w where "r3 = w @ rest" using id_gt_SomeD by blast
  with lit_SomeD [OF r1] lit_SomeD [OF r2] lit_SomeD [OF r3] have "s = (''<@&'' @ w) @ rest" by simp
  then show ?thesis by blast
qed

lemma mention_at_prefix:
  assumes "mention_at s = Some m"
  shows "match_text m \<noteq> [] \<and> (\<exists>rest. s = match_text m @ rest)"
proof -
  have "\<exists>w rest. w \<noteq> [] \<and> s = w @ rest \<and> match_text m = matched s rest"
  proof (cases "user_alt s")
    case (Some x)
    obtain d rest where x: "x = (d, rest)" by (cases x)
    with Some assms have "match_text m = matched s rest" by (auto simp: mention_at_def)
    with user_alt_SomeD Some x show ?thesis by blast
  next
    case u: None
    show ?thesis
    proof (cases "channel_alt s")
      case (Some x)
      obtain d rest where x: "x = (d, rest)" by (cases x)
      with u Some assms have "match_text m = matched s rest" by (auto simp: mention_at_def)
      with channel_alt_SomeD Some x show ?thesis by blast
    next
      case c: None
      with u assms obtain d rest where "role_alt s = Some (d, rest)"
        and "match_text m = matched s rest"
        by (auto simp: mention_at_def split: option.splits)
      with role_alt_SomeD show ?thesis by blast
    qed
  qed
  then show ?thesis by (auto simp: matched_def)
qed

lemma without_mentions_Nil: "without_mentions [] = []"
  by (simp add: without_mentions_def mention_at_def user_alt_def channel_alt_def role_alt_def lit_def)

lemma without_mentions_Cons:
  "without_mentions (c # cs) =
     (case mention_at (c # cs) of
        None \<Rightarrow> c # without_mentions cs
      | Some m \<Rightarrow> without_mentions (drop (length (match_text m)) (c # cs)))"
  using mention_at_prefix [of "c # cs"]
  by (auto simp: without_mentions_def split: option.splits)

lemma text_segments_append: "text_segments (xs @ ys) = text_segments xs @ text_segments ys"
  by (induction xs rule: text_segments.induct) auto

lemma text_segments_callback:
  "mention_callback st body ch (els, li) (m, off) = Inr (els', li') \<Longrightarrow>
     concat (text_segments els') = concat (text_segments els) @ slice body li off \<and>
     li' = off + length (match_text m)"
  by (auto simp: mention_callback_def Let_def addMention_def text_segments_append
      split: if_splits sum.splits option.splits)

lemma run_invariant:
  assumes "body = p @ s" and "length p = i" and "li \<le> i"
    and "run_callbacks (mention_callback st body ch) (els, li) (mention_matches i s)
           = Inr (elements, lastIndex)"
  shows "concat (text_segments
           (if lastIndex < length body then elements @ [Text (drop lastIndex body)] else elements))
         = concat (text_segments els) @ drop li p @ without_mentions s"
  using assms
proof (induction i s arbitrary: p els li rule: mention_matches.induct)
  case (1 i)
  then show ?case by (auto simp: text_segments_append without_mentions_Nil)
next
  case (2 i c cs)
  show ?case
  proof (cases "mention_at (c # cs)")
    case None
    have "body = (p @ [c]) @ cs" "length (p @ [c]) = Suc i" "li \<le> Suc i"
      using 2(4-6) by simp_all
    moreover have "run_callbacks (mention_callback st body ch) (els, li)
                     (mention_matches (Suc i) cs) = Inr (elements, lastIndex)"
      using 2(7) None by simp
    ultimately have "concat (text_segments
           (if lastIndex < length body then elements @ [Text (drop lastIndex body)] else elements))
         = concat (text_segments els) @ drop li (p @ [c]) @ without_mentions cs"
      by (rule "2.IH"(1) [OF None])
    with None 2(5,6) show ?thesis by (simp add: without_mentions_Cons)
  next
    case (Some m)
    with mention_at_prefix obtain rest where
      m: "match_text m \<noteq> []" "c # cs = match_text m @ rest"
      by blast
    have dr: "drop (length (match_text m)) (c # cs) = rest"
      using m(2) by (metis append_eq_conv_conj)
    from 2(7) Some m(1) obtain els' li' where
      cb: "mention_callback st body ch (els, li) (m, i) = Inr (els', li')"
      and run: "run_callbacks (mention_callback st body ch) (els', li')
                  (mention_matches (i + length (match_text m))
                     (drop (length (match_text m)) (c # cs))) = Inr (elements, lastIndex)"
      by (cases "mention_callback st body ch (els, li) (m, i)") auto
    from text_segments_callback [OF cb]
    have els': "concat (text_segments els') = concat (text_segments els) @ slice body li i"
      and li': "li' = i + length (match_text m)" by simp_all
    have sl: "slice body li i = drop li p"
      using 2(4-6) by (simp add: slice_def)
    have "body = (p @ match_text m) @ drop (length (match_text m)) (c # cs)"
      "length (p @ match_text m) = i + length (match_text m)"
      "li' \<le> i + length (match_text m)"
      using 2(4,5) m(2) li' dr by simp_all
    from "2.IH"(3) [OF Some m(1) this run]
    show ?thesis
      using Some m(1) els' sl li' dr 2(5)
      by (simp add: without_mentions_Cons)
  qed
qed

lemma parseMentions_text:
  assumes "parseMentions st body ch = Inr els"
  shows "concat (text_segments els) = without_mentions body"
proof -
  from assms obtain elements lastIndex where
    run: "run_callbacks (mention_callback st body ch) ([], 0) (mention_matches 0 body)
            = Inr (elements, lastIndex)"
    and els: "els = (if lastIndex < length body then elements @ [Text (drop lastIndex body)]
                     else elements)"
    by (auto simp: parseMentions_def split: sum.splits prod.splits)
  from run_invariant [of body "[]" body 0 0 st ch "[]" elements lastIndex, OF _ _ _ run] els
  show ?thesis by simp
qed

lemma takeWhile_all_stop:
  "\<forall>c\<in>set xs. P c \<Longrightarrow> \<not> P y \<Longrightarrow> takeWhile P (xs @ y # ys) = xs"
  by (induction xs) auto

lemma dropWhile_all_stop:
  "\<forall>c\<in>set xs. P c \<Longrightarrow> \<not> P y \<Longrightarrow> dropWhile P (xs @ y # ys) = y # ys"
  by (induction xs) auto

lemma id_gt_token:
  assumes "17 \<le> length ident" "length ident \<le> 20" "\<forall>c\<in>set ident. is_digit c"
  shows "id_gt (ident @ CHR ''>'' # post) = Some (ident, post)"
proof -
  have g: "\<not> is_digit CHR ''>''" by (simp add: is_digit_def)
  show ?thesis
    using assms
    by (simp add: id_gt_def Let_def takeWhile_all_stop [of ident is_digit, OF assms(3) g]
        dropWhile_all_stop [of ident is_digit, OF assms(3) g] lit_def)
qed

lemma id_gt_not_digit: "\<not> is_digit c \<Longrightarrow> id_gt (c # s) = None"
  by (simp add: id_gt_def)

lemma mention_at_token:
  assumes "17 \<le> length ident" "length ident \<le> 20" "\<forall>c\<in>set ident. is_digit c"
    and "sigil \<in> {''<@'', ''<@!'', ''<#'', ''<@&''}"
  shows "\<exists>m. mention_at (mention_token sigil ident @ post) = Some m
           \<and> match_text m = mention_token sigil ident"
proof -
  obtain d ds where ident: "ident = d # ds" using assms(1) by (cases ident) auto
  with assms(3) have d: "is_digit d" by simp
  then have dn: "d \<noteq> CHR ''!''" by (auto simp: is_digit_def)
  note tok = id_gt_token [OF assms(1-3), of post]
  have amp: "id_gt (CHR ''&'' # s) = None" for s
    by (rule id_gt_not_digit) (simp add: is_digit_def)
  from assms(4) consider "sigil = ''<@''" | "sigil = ''<@!''" | "sigil = ''<#''" | "sigil = ''<@&''"
    by auto
  then have "\<exists>m. mention_at (mention_token sigil ident @ post) = Some m
           \<and> match_text m = matched (mention_token sigil ident @ post) post"
  proof cases
    case 1
    have "lit CHR ''!'' (ident @ CHR ''>'' # post) = None" using ident dn by (simp add: lit_def)
    with 1 tok show ?thesis
      by (simp add: mention_at_def mention_token_def user_alt_def lit_def orelse_def)
  next
    case 2
    with tok show ?thesis
      by (simp add: mention_at_def mention_token_def user_alt_def lit_def orelse_def)
  next
    case 3
    with tok show ?thesis
      by (simp add: mention_at_def mention_token_def user_alt_def channel_alt_def lit_def)
  next
    case 4
    with tok amp show ?thesis
      by (simp add: mention_at_def mention_token_def user_alt_def channel_alt_def role_alt_def
          lit_def orelse_def)
  qed
  then show ?thesis by (simp add: matched_app)
qed

lemma bind_app_pair:
  assumes "m1 (x @ z) = map_option (\<lambda>t. t @ z) (m1 x)"
    and "\<And>y. m2 (y @ z) = map_option (\<lambda>(d, t). (d, t @ z)) (m2 y)"
  shows "(m1 (x @ z) \<bind> m2) = map_option (\<lambda>(d, t). (d, t @ z)) (m1 x \<bind> m2)"
  using assms by (cases "m1 x") auto

lemma id_gt_app:
  "id_gt (x @ CHR ''<'' # r) = map_option (\<lambda>(d, t). (d, t @ CHR ''<'' # r)) (id_gt x)"
proof -
  have l: "\<not> is_digit CHR ''<''" by (simp add: is_digit_def)
  show ?thesis
    using lit_app [of "CHR ''>''" "CHR ''<''" "dropWhile is_digit x" r]
    by (cases "lit CHR ''>'' (dropWhile is_digit x)")
       (simp_all add: id_gt_def Let_def takeWhile_stop [of is_digit, OF l]
          dropWhile_stop [of is_digit, OF l])
qed

lemma user_opt_app:
  "orelse (lit CHR ''!'' (x @ CHR ''<'' # r) \<bind> id_gt) (id_gt (x @ CHR ''<'' # r))
     = map_option (\<lambda>(d, t). (d, t @ CHR ''<'' # r)) (orelse (lit CHR ''!'' x \<bind> id_gt) (id_gt x))"
proof -
  have "(lit CHR ''!'' (x @ CHR ''<'' # r) \<bind> id_gt)
          = map_option (\<lambda>(d, t). (d, t @ CHR ''<'' # r)) (lit CHR ''!'' x \<bind> id_gt)"
    by (intro bind_app_pair lit_app id_gt_app) simp
  then show ?thesis
    by (cases "lit CHR ''!'' x \<bind> id_gt") (simp_all add: orelse_def id_gt_app)
qed

lemma user_alt_app:
  assumes "pre \<noteq> []"
  shows "user_alt (pre @ CHR ''<'' # r)
           = map_option (\<lambda>(d, t). (d, t @ CHR ''<'' # r)) (user_alt pre)"
proof -
  from assms obtain c cs where pre: "pre = c # cs" by (cases pre) auto
  have "(lit CHR ''@'' (cs @ CHR ''<'' # r) \<bind> (\<lambda>r. orelse (lit CHR ''!'' r \<bind> id_gt) (id_gt r)))
      = map_option (\<lambda>(d, t). (d, t @ CHR ''<'' # r))
          (lit CHR ''@'' cs \<bind> (\<lambda>r. orelse (lit CHR ''!'' r \<bind> id_gt) (id_gt r)))"
    by (intro bind_app_pair lit_app user_opt_app) simp
  with pre show ?thesis by (simp add: user_alt_def lit_def)
qed

lemma channel_alt_app:
  assumes "pre \<noteq> []"
  shows "channel_alt (pre @ CHR ''<'' # r)
           = map_option (\<lambda>(d, t). (d, t @ CHR ''<'' # r)) (channel_alt pre)"
proof -
  from assms obtain c cs where pre: "pre = c # cs" by (cases pre) auto
  have "(lit CHR ''#'' (cs @ CHR ''<'' # r) \<bind> id_gt)
      = map_option (\<lambda>(d, t). (d, t @ CHR ''<'' # r)) (lit CHR ''#'' cs \<bind> id_gt)"
    by (intro bind_app_pair lit_app id_gt_app) simp
  with pre show ?thesis by (simp add: channel_alt_def lit_def)
qed

lemma role_alt_app:
  assumes "pre \<noteq> []"
  shows "role_alt (pre @ CHR ''<'' # r)
           = map_option (\<lambda>(d, t). (d, t @ CHR ''<'' # r)) (role_alt pre)"
proof -
  from assms obtain c cs where pre: "pre = c # cs" by (cases pre) auto
  have "(lit CHR ''@'' (cs @ CHR ''<'' # r) \<bind> lit CHR ''&'' \<bind> id_gt)
      = map_option (\<lambda>(d, t). (d, t @ CHR ''<'' # r)) (lit CHR ''@'' cs \<bind> lit CHR ''&'' \<bind> id_gt)"
    by (intro bind_app_pair bind_app lit_app id_gt_app) simp_all
  with pre show ?thesis by (simp add: role_alt_def lit_def)
qed

lemma matched_app_both:
  "\<exists>w. s = w @ t \<Longrightarrow> matched (s @ z) (t @ z) = matched s t"
  by (auto simp: matched_def)

lemma mention_at_append:
  assumes "pre \<noteq> []"
  shows "map_option match_text (mention_at (pre @ CHR ''<'' # r)) = map_option match_text (mention_at pre)"
proof -
  let ?z = "CHR ''<'' # r"
  have m: "alt pre = Some (d, t) \<Longrightarrow> (\<exists>w. w \<noteq> [] \<and> pre = w @ t) \<Longrightarrow>
           matched (pre @ ?z) (t @ ?z) = matched pre t" for alt :: "string \<Rightarrow> (string \<times> string) option" and d t
    by (auto simp: matched_def)
  show ?thesis
    unfolding mention_at_def user_alt_app [OF assms] channel_alt_app [OF assms]
      role_alt_app [OF assms]
    using user_alt_SomeD [of pre] channel_alt_SomeD [of pre] role_alt_SomeD [of pre]
    by (auto simp: matched_def split: option.splits)
qed


lemma without_mentions_token:
  assumes "17 \<le> length ident" "length ident \<le> 20" "\<forall>c\<in>set ident. is_digit c"
    and "sigil \<in> {''<@'', ''<@!'', ''<#'', ''<@&''}"
  shows "without_mentions (pre @ mention_token sigil ident @ post)
           = without_mentions pre @ without_mentions post"
proof (induction "length pre" arbitrary: pre rule: less_induct)
  case less
  let ?tok = "mention_token sigil ident"
  from mention_at_token [OF assms, of post] obtain m where
    m: "mention_at (?tok @ post) = Some m" "match_text m = ?tok" by blast
  obtain r where tok: "?tok @ post = CHR ''<'' # r"
    using assms(4) by (auto simp: mention_token_def)
  show ?case
  proof (cases pre)
    case Nil
    with m tok show ?thesis
      by (simp add: without_mentions_Cons without_mentions_Nil)
         (metis append_eq_conv_conj tok)
  next
    case (Cons c cs)
    have at: "map_option match_text (mention_at (pre @ ?tok @ post))
                = map_option match_text (mention_at pre)"
      unfolding tok using Cons by (intro mention_at_append) simp
    show ?thesis
    proof (cases "mention_at pre")
      case None
      with at have "mention_at (pre @ ?tok @ post) = None" by simp
      with None Cons less.hyps [of cs] show ?thesis
        by (simp add: without_mentions_Cons)
    next
      case (Some m1)
      with at obtain m2 where m2: "mention_at (pre @ ?tok @ post) = Some m2"
        "match_text m2 = match_text m1" by auto
      from Some mention_at_prefix obtain rest where
        m1: "match_text m1 \<noteq> []" "pre = match_text m1 @ rest" by blast
      then have "length rest < length pre" by simp
      from less.hyps [OF this]
      have ih: "without_mentions (rest @ ?tok @ post) = without_mentions rest @ without_mentions post" .
      have d1: "drop (length (match_text m1)) (c # cs @ ?tok @ post) = rest @ ?tok @ post"
        using m1 Cons by (metis append_Cons append_assoc append_eq_conv_conj)
      have d2: "drop (length (match_text m1)) (c # cs) = rest"
        using m1 Cons by (metis append_eq_conv_conj)
      from Some m2 Cons ih d1 d2 show ?thesis
        by (simp add: without_mentions_Cons)
    qed
  qed
qed

lemma without_mentions_plain: "CHR ''<'' \<notin> set s \<Longrightarrow> without_mentions s = s"
proof (induction s)
  case Nil
  then show ?case by (simp add: without_mentions_Nil)
next
  case (Cons c cs)
  from Cons.prems have "c \<noteq> CHR ''<''" by auto
  then have "mention_at (c # cs) = None"
    by (simp add: mention_at_def user_alt_def channel_alt_def role_alt_def lit_def)
  with Cons show ?case by (simp add: without_mentions_Cons)
qed

lemma id_gt_group: "id_gt s = Some (d, rest) \<Longrightarrow> d \<noteq> []"
  by (auto simp: id_gt_def Let_def split: if_splits)

lemma user_alt_group: "user_alt s = Some (d, rest) \<Longrightarrow> d \<noteq> []"
  by (auto simp: user_alt_def orelse_def bind_eq_Some_conv split: option.splits
      dest: id_gt_group)

lemma channel_alt_group: "channel_alt s = Some (d, rest) \<Longrightarrow> d \<noteq> []"
  by (auto simp: channel_alt_def bind_eq_Some_conv dest: id_gt_group)

lemma role_alt_group: "role_alt s = Some (d, rest) \<Longrightarrow> d \<noteq> []"
  by (auto simp: role_alt_def bind_eq_Some_conv dest: id_gt_group)

lemma mention_at_group: "mention_at s = Some m \<Longrightarrow> has_group m"
  by (auto simp: mention_at_def has_group_def truthy_def split: option.splits
      dest: user_alt_group channel_alt_group role_alt_group)

lemma mention_matches_group: "(m, off) \<in> set (mention_matches i s) \<Longrightarrow> has_group m"
  by (induction i s rule: mention_matches.induct)
     (auto split: option.splits if_splits dest: mention_at_group)

lemma is_mention_addMention:
  "addMention st ident type guildId = Inr e \<Longrightarrow> is_mention e"
  by (auto simp: addMention_def Let_def split: if_splits sum.splits option.splits)

lemma callback_kinds:
  assumes "has_group m"
    and "mention_callback st body ch (els, li) (m, off) = Inr (els', li')"
  shows "map is_mention els' = map is_mention els @ [False, True]"
  using assms
  by (auto simp: mention_callback_def has_group_def Let_def map_sum_def
      split: if_splits sum.splits dest: is_mention_addMention)

lemma run_kinds:
  assumes "\<forall>(m, off)\<in>set ms. has_group m"
    and "run_callbacks (mention_callback st body ch) state ms = Inr state'"
  shows "map is_mention (fst state')
           = map is_mention (fst state) @ concat (replicate (length ms) [False, True])"
  using assms
proof (induction ms arbitrary: state)
  case Nil
  then show ?case by simp
next
  case (Cons x ms)
  obtain m off where x: "x = (m, off)" by (cases x)
  obtain els li where state: "state = (els, li)" by (cases state)
  from Cons.prems(1) x have g: "has_group m" by simp
  from Cons.prems(2) x state obtain els1 li1 where
    cb: "mention_callback st body ch (els, li) (m, off) = Inr (els1, li1)"
    and run: "run_callbacks (mention_callback st body ch) (els1, li1) ms = Inr state'"
    by (cases "mention_callback st body ch (els, li) (m, off)") auto
  from Cons.prems(1) have "\<forall>(m, off)\<in>set ms. has_group m" by simp
  from Cons.IH [OF this run]
  have "map is_mention (fst state')
          = map is_mention els1 @ concat (replicate (length ms) [False, True])"
    by simp
  also have "map is_mention els1 = map is_mention els @ [False, True]"
    by (rule callback_kinds [OF g cb])
  finally show ?case using state by simp
qed

lemma parseMentions_kinds:
  assumes "parseMentions st body ch = Inr els"
  shows "\<exists>tail. (tail = [] \<or> tail = [False]) \<and>
           map is_mention els
             = concat (replicate (length (mention_matches 0 body)) [False, True]) @ tail"
proof -
  from assms obtain elements lastIndex where
    run: "run_callbacks (mention_callback st body ch) ([], 0) (mention_matches 0 body)
            = Inr (elements, lastIndex)"
    and els: "els = (if lastIndex < length body then elements @ [Text (drop lastIndex body)]
                     else elements)"
    by (auto simp: parseMentions_def split: sum.splits prod.splits)
  have "\<forall>(m, off)\<in>set (mention_matches 0 body). has_group m"
    using mention_matches_group by blast
  from run_kinds [OF this run]
  have k: "map is_mention elements
             = concat (replicate (length (mention_matches 0 body)) [False, True])"
    by simp
  show ?thesis
  proof (cases "lastIndex < length body")
    case True
    with els k have "map is_mention els
        = concat (replicate (length (mention_matches 0 body)) [False, True]) @ [False]"
      by simp
    then show ?thesis by blast
  next
    case False
    with els k have "map is_mention els
        = concat (replicate (length (mention_matches 0 body)) [False, True]) @ []"
      by simp
    then show ?thesis by blast
  qed
qed

text \<open>
  \<open>parseMentions\<close> returns whenever the guild store holds the guild of the channel: only
  the lookup of a role can raise.
\<close>

lemma addMention_returns:
  assumes "case guildId of None \<Rightarrow> True | Some g \<Rightarrow> g = [] \<or> getGuild st g \<noteq> None"
  shows "\<exists>e. addMention st ident type guildId = Inr e"
  using assms
  by (auto simp: addMention_def Let_def split: option.splits)

lemma callback_returns:
  assumes "case guild_id ch of None \<Rightarrow> True | Some g \<Rightarrow> g = [] \<or> getGuild st g \<noteq> None"
  shows "\<exists>state'. mention_callback st body ch state call = Inr state'"
proof -
  obtain els li m off where sc: "state = (els, li)" "call = (m, off)"
    by (cases state, cases call) auto
  have "\<exists>e. addMention st (str (group_userId m)) ''user'' None = Inr e"
    by (rule addMention_returns) simp
  then obtain u where
    u: "addMention st (str (group_userId m)) ''user'' None = Inr u" by blast
  have "\<exists>e. addMention st (str (group_channelId m)) ''channel'' None = Inr e"
    by (rule addMention_returns) simp
  then obtain c where
    c: "addMention st (str (group_channelId m)) ''channel'' None = Inr c" by blast
  from addMention_returns [OF assms] obtain r where
    r: "addMention st (str (group_roleId m)) ''role'' (guild_id ch) = Inr r" by blast
  show ?thesis
    by (simp add: sc mention_callback_def Let_def u c r)
qed

lemma run_returns:
  assumes "case guild_id ch of None \<Rightarrow> True | Some g \<Rightarrow> g = [] \<or> getGuild st g \<noteq> None"
  shows "\<exists>state'. run_callbacks (mention_callback st body ch) state ms = Inr state'"
proof (induction ms arbitrary: state)
  case Nil
  then show ?case by simp
next
  case (Cons x ms)
  from callback_returns [OF assms] obtain s1 where
    "mention_callback st body ch state x = Inr s1" by blast
  with Cons show ?case by simp
qed

lemma parseMentions_returns:
  assumes "case guild_id ch of None \<Rightarrow> True | Some g \<Rightarrow> g = [] \<or> getGuild st g \<noteq> None"
  shows "\<exists>els. parseMentions st body ch = Inr els"
proof -
  from run_returns [OF assms] obtain state' where
    "run_callbacks (mention_callback st body ch) ([], 0) (mention_matches 0 body) = Inr state'"
    by blast
  then show ?thesis by (cases state') (simp add: parseMentions_def)
qed

text \<open>
  The later revision. Whenever \<open>parseMentions\<close> returns, it returns a sequence in which
  a plain-text segment and a mention element alternate, one pair for every token, with
  one more text segment when text is left behind the last token. The plain-text
  segments, concatenated in their order, are the body with every mention token removed.
  Removing the tokens takes a token with an id of 17 to 20 digits out wherever it
  stands, and leaves text without \<open><\<close> as it is.
\<close>

lemma parseMentions_later_text_segments:
  "(parseMentions st body ch = Inr els \<longrightarrow>
      concat (text_segments els) = without_mentions body \<and>
      (\<exists>tail. (tail = [] \<or> tail = [False]) \<and>
         map is_mention els
           = concat (replicate (length (mention_matches 0 body)) [False, True]) @ tail)) \<and>
   (17 \<le> length ident \<and> length ident \<le> 20 \<and> (\<forall>c\<in>set ident. is_digit c)
      \<and> sigil \<in> {''<@'', ''<@!'', ''<#'', ''<@&''} \<longrightarrow>
      without_mentions (pre @ mention_token sigil ident @ post)
        = without_mentions pre @ without_mentions post) \<and>
   (CHR ''<'' \<notin> set plain \<longrightarrow> without_mentions plain = plain)"
  using parseMentions_text [of st body ch els] parseMentions_kinds [of st body ch els]
    without_mentions_token [of ident sigil pre post] without_mentions_plain [of plain]
  by blast

text \<open>
  Claim C5. The claim holds of \<open>parseMentions\<close> of the later revision, as shown above.
  The inline replacement of the earlier revision, which the claim cites as well, has no
  step for the text behind the last token: for a direct message with the body
  \<open>hi <@111111111111111111> bye\<close> the rich sequence that is shown ends with the mention
  element, its plain-text segments give \<open>hi \<close>, and the body without its token is
  \<open>hi  bye\<close>. The later revision keeps the text.
\<close>

theorem earlier_mentions_drop_text_behind_last_token:
  "MESSAGE_CREATE_earlier example_env example_tail_message = Shown example_tail_notification \<and>
   richBody example_tail_notification
     = Some [Text ''hi '', Span ''user-111111111111111111'' (Some ''@unknown-user'')] \<and>
   map_option (\<lambda>els. concat (text_segments els)) (richBody example_tail_notification)
     = Some ''hi '' \<and>
   without_mentions (content example_tail_message) = ''hi  bye'' \<and>
   replaceMentions_earlier example_env ''hi <@111111111111111111> bye'' example_dm_channel
     = Inr [Text ''hi '', Span ''user-111111111111111111'' (Some ''@unknown-user'')] \<and>
   parseMentions example_env ''hi <@111111111111111111> bye'' example_dm_channel
     = Inr [Text ''hi '', Span ''user-111111111111111111'' (Some ''@unknown-user''),
            Text '' bye'']"
  by code_simp

theorem earlier_mentions_drop_text_behind_last_token_witness:
  "map_option (\<lambda>els. concat (text_segments els)) (richBody example_tail_notification)
     \<noteq> Some (without_mentions (content example_tail_message))"
  using earlier_mentions_drop_text_behind_last_token by simp

section \<open>Properties of the message handler\<close>

lemma handleGuildMessage_ShownD:
  assumes "handleGuildMessage st msg = Shown n"
    and "getChannel st (message_channel_id msg) = Some ch"
  shows "message_channel_id msg \<in> set (notifyFor st)
       \<or> (friendServerNotifications st \<and> isFriend st (user_id (author msg)))
       \<or> (findNotificationLevel st ch \<noteq> NO_MESSAGES \<and>
          (findNotificationLevel st ch = ALL_MESSAGES
           \<or> includes_str (content msg) (''<@'' @ user_id (getCurrentUser st) @ ''>'')))"
  using assms
  by (auto simp: handleGuildMessage_def Let_def split: if_splits sum.splits)

lemma findNotificationLevel_ALL:
  "findNotificationLevel st ch = ALL_MESSAGES \<Longrightarrow> spec_effective_level st ch = ALL_MESSAGES"
  by (auto simp: findNotificationLevel_def spec_effective_level_def ALL_MESSAGES_def
        NO_MESSAGES_def
      split: if_splits option.splits)

lemma MESSAGE_CREATE_guild:
  assumes "getChannel st (message_channel_id msg) = Some ch" and "truthy (guild_id ch)"
    and "MESSAGE_CREATE st msg = Shown n"
  shows "handleGuildMessage st msg = Shown n"
  using assms by (auto simp: MESSAGE_CREATE_def Let_def split: if_splits)

lemma example_shown:
  "MESSAGE_CREATE example_env example_message = Shown example_notification"
  by code_simp

text \<open>
  Claim C1. A message in a guild channel that reaches \<open>handleGuildMessage\<close>, called
  directly or through \<open>MESSAGE_CREATE\<close>, leads to a notification only if the channel id is
  in the always-notify list, or the sender is a friend and friend-server-notifications
  are enabled, or the effective notification level is "all messages", or the content
  contains the mention token \<open><@id>\<close> of the current user. So when none of these holds
  no notification is produced.
\<close>

theorem guild_notification_only_if:
  assumes "getChannel st (message_channel_id msg) = Some ch"
    and "handleGuildMessage st msg = Shown n
         \<or> (truthy (guild_id ch) \<and> MESSAGE_CREATE st msg = Shown n)"
  shows "message_channel_id msg \<in> set (notifyFor st)
       \<or> (isFriend st (user_id (author msg)) \<and> friendServerNotifications st)
       \<or> spec_effective_level st ch = ALL_MESSAGES
       \<or> includes_str (content msg) (''<@'' @ user_id (getCurrentUser st) @ ''>'')"
proof -
  from assms have "handleGuildMessage st msg = Shown n"
    using MESSAGE_CREATE_guild by blast
  from handleGuildMessage_ShownD [OF this assms(1)] findNotificationLevel_ALL [of st ch]
  show ?thesis by blast
qed

theorem guild_notification_only_if_witness:
  "MESSAGE_CREATE example_env example_message = Shown example_notification \<and>
   (message_channel_id example_message \<in> set (notifyFor example_env)
    \<or> (isFriend example_env (user_id (author example_message))
        \<and> friendServerNotifications example_env)
    \<or> spec_effective_level example_env example_channel = ALL_MESSAGES
    \<or> includes_str (content example_message)
         (''<@'' @ user_id (getCurrentUser example_env) @ ''>''))"
proof -
  have g: "getChannel example_env (message_channel_id example_message) = Some example_channel"
    by code_simp
  have t: "truthy (guild_id example_channel)"
    by code_simp
  from guild_notification_only_if [OF g, of example_notification] t example_shown
  show ?thesis by blast
qed

text \<open>
  The later revision. A message whose author is the current user never leads to a
  notification, whatever the channel and the settings are.
\<close>

lemma MESSAGE_CREATE_later_own_message:
  "user_id (author msg) = user_id (getCurrentUser st) \<Longrightarrow>
   MESSAGE_CREATE st msg = NoNotification"
  by (simp add: MESSAGE_CREATE_def Let_def)

text \<open>
  In the earlier revision the same holds outside guild channels.
\<close>

lemma MESSAGE_CREATE_earlier_own_private_message:
  assumes "user_id (author msg) = user_id (getCurrentUser st)"
    and "getChannel st (message_channel_id msg) = Some ch" and "\<not> truthy (guild_id ch)"
  shows "MESSAGE_CREATE_earlier st msg = NoNotification"
  using assms by (simp add: MESSAGE_CREATE_earlier_def Let_def)

text \<open>
  Claim C2. The claim holds of \<open>MESSAGE_CREATE\<close> of the later revision, as shown above.
  The earlier revision, which the claim cites as well, enters its guild branch before it
  tests the author, and its \<open>handleGuildMessage\<close> has no such test: a message of the
  current user in a guild channel that is on the always-notify list is shown.
\<close>

theorem earlier_MESSAGE_CREATE_shows_own_message:
  "user_id (author example_own_message) = user_id (getCurrentUser example_notifying_env) \<and>
   MESSAGE_CREATE_earlier example_notifying_env example_own_message
     = Shown example_own_notification"
  by code_simp

theorem earlier_MESSAGE_CREATE_shows_own_message_witness:
  "MESSAGE_CREATE_earlier example_notifying_env example_own_message \<noteq> NoNotification"
  using earlier_MESSAGE_CREATE_shows_own_message by simp

lemma redact_redacts:
  "(isStreaming st \<and> streamingTreatment st = NO_CONTENT) \<or> disableMessageBody st \<Longrightarrow>
   notification_body (redact st n) = ''Message content has been redacted.'' \<and>
   richBody (redact st n) = None"
  by (auto simp: redact_def)

lemma handleGuildMessage_redacted:
  "handleGuildMessage st msg = Shown n \<Longrightarrow> \<exists>n0. n = redact st n0"
  by (auto simp: handleGuildMessage_def Let_def split: if_splits sum.splits option.splits)

lemma MESSAGE_CREATE_redacted:
  "MESSAGE_CREATE st msg = Shown n \<Longrightarrow> \<exists>n0. n = redact st n0"
  by (auto simp: MESSAGE_CREATE_def Let_def split: if_splits sum.splits option.splits
      dest: handleGuildMessage_redacted)

text \<open>
  Claim C3. When a screenshare is active with the streaming treatment "no content", or
  when all message bodies are redacted, every notification produced for a message, in a
  guild channel or a private one, has the fixed redaction string as its body and no rich
  body. So two messages that differ only in their content, if both lead to a
  notification, give notifications with the same body and the same rich body.
\<close>

theorem redacted_body_independent_of_content:
  assumes "(isStreaming st \<and> streamingTreatment st = NO_CONTENT) \<or> disableMessageBody st"
  shows "(MESSAGE_CREATE st msg = Shown n \<longrightarrow>
            notification_body n = ''Message content has been redacted.'' \<and> richBody n = None) \<and>
         (MESSAGE_CREATE st msg = Shown n \<and> MESSAGE_CREATE st (msg\<lparr>content := c\<rparr>) = Shown n' \<longrightarrow>
            notification_body n = notification_body n' \<and> richBody n = richBody n')"
  using assms MESSAGE_CREATE_redacted [of st msg n]
    MESSAGE_CREATE_redacted [of st "msg\<lparr>content := c\<rparr>" n'] redact_redacts [of st]
  by metis

theorem redacted_body_independent_of_content_witness:
  "MESSAGE_CREATE example_redacting_env example_message = Shown example_redacted_notification \<and>
   MESSAGE_CREATE example_redacting_env (example_message\<lparr>content := ''other text''\<rparr>)
     = Shown example_redacted_notification \<and>
   notification_body example_redacted_notification = ''Message content has been redacted.'' \<and>
   richBody example_redacted_notification = None"
proof -
  have h: "(isStreaming example_redacting_env \<and> streamingTreatment example_redacting_env = NO_CONTENT)
           \<or> disableMessageBody example_redacting_env"
    by code_simp
  have a: "MESSAGE_CREATE example_redacting_env example_message
             = Shown example_redacted_notification"
    by code_simp
  have b: "MESSAGE_CREATE example_redacting_env (example_message\<lparr>content := ''other text''\<rparr>)
             = Shown example_redacted_notification"
    by code_simp
  from redacted_body_independent_of_content
         [OF h, of example_message example_redacted_notification "''other text''"
            example_redacted_notification] a b
  show ?thesis by blast
qed

section \<open>Properties of the notification that is built\<close>

lemma build_Inr:
  assumes "buildNotificationData st msg ch k = Inr n"
    and "getNotificationBody st msg ch = Inr body0"
  obtains rbe where
    "(if has_length (mentions msg) \<or> has_length (mentionRoles msg)
      then map_sum id Some (parseMentions st (formatEmotes body0) ch) else Inr None) = Inr rbe"
    and "notification_body n
           = limitMessageLength (formatEmotes body0) (has_length (attachments msg))"
    and "richBody n = (if has_length rbe then rbe else None)"
    and "onClick n = Some k"
proof -
  let ?r = "if has_length (mentions msg) \<or> has_length (mentionRoles msg)
      then map_sum id Some (parseMentions st (formatEmotes body0) ch) else Inr None"
  from assms obtain rbe where r: "?r = Inr rbe"
    by (cases ?r) (simp_all add: buildNotificationData_def Let_def)
  from assms r have
    "notification_body n
           = limitMessageLength (formatEmotes body0) (has_length (attachments msg))
     \<and> richBody n = (if has_length rbe then rbe else None) \<and> onClick n = Some k"
    by (simp add: buildNotificationData_def Let_def split: option.splits list.splits) auto
  with r that show ?thesis by blast
qed

lemma buildNotificationData_fields:
  assumes "buildNotificationData st msg ch k = Inr n"
    and "getNotificationBody st msg ch = Inr body0"
  shows "notification_body n
           = limitMessageLength (formatEmotes body0) (has_length (attachments msg))"
    and "has_length (mentions msg) \<or> has_length (mentionRoles msg) \<Longrightarrow>
           \<exists>els. parseMentions st (formatEmotes body0) ch = Inr els
                 \<and> richBody n = (if els \<noteq> [] then Some els else None)"
    and "\<not> (has_length (mentions msg) \<or> has_length (mentionRoles msg)) \<Longrightarrow> richBody n = None"
    and "onClick n = Some k"
proof -
  from build_Inr [OF assms] obtain rbe where
    r: "(if has_length (mentions msg) \<or> has_length (mentionRoles msg)
      then map_sum id Some (parseMentions st (formatEmotes body0) ch) else Inr None) = Inr rbe"
    and b: "notification_body n
           = limitMessageLength (formatEmotes body0) (has_length (attachments msg))"
    and rb: "richBody n = (if has_length rbe then rbe else None)"
    and oc: "onClick n = Some k"
    by blast
  show "notification_body n
           = limitMessageLength (formatEmotes body0) (has_length (attachments msg))" by (rule b)
  show "onClick n = Some k" by (rule oc)
  show "\<exists>els. parseMentions st (formatEmotes body0) ch = Inr els
                 \<and> richBody n = (if els \<noteq> [] then Some els else None)"
    if "has_length (mentions msg) \<or> has_length (mentionRoles msg)"
  proof -
    from that r have "map_sum id Some (parseMentions st (formatEmotes body0) ch) = Inr rbe"
      by simp
    then obtain els where "parseMentions st (formatEmotes body0) ch = Inr els" "rbe = Some els"
      by (cases "parseMentions st (formatEmotes body0) ch") auto
    with rb show ?thesis by (simp add: has_length_def)
  qed
  show "richBody n = None"
    if "\<not> (has_length (mentions msg) \<or> has_length (mentionRoles msg))"
    using that r rb by (auto simp: has_length_def)
qed

text \<open>
  Claim C6 says that the rich sequence is computed from the truncated body, the string
  kept in the plain-text body field. It is not: for a message of 35 characters with an
  attachment the body field is cut to 30 characters, and the rich sequence still holds
  the whole text behind the mention.
\<close>

theorem rich_body_from_truncated_body_counterexample:
  "buildNotificationData example_env example_long_message example_channel
      (SwitchChannels (Some ''666666666666666666'') ''555555555555555555'')
     = Inr example_long_notification \<and>
   map_option Inr (richBody example_long_notification)
     \<noteq> Some (parseMentions example_env (notification_body example_long_notification)
               example_channel)"
  by code_simp

text \<open>
  Claim C6, amended. Emote normalization comes first. The plain-text body field is the
  truncation of the normalized body, and the rich sequence, for a message that carries
  mentions, is split from the same normalized body before it is truncated.
\<close>

theorem rich_body_from_untruncated_body:
  assumes "buildNotificationData st msg ch k = Inr n"
  shows "\<exists>body0. getNotificationBody st msg ch = Inr body0 \<and>
           notification_body n
             = limitMessageLength (formatEmotes body0) (has_length (attachments msg)) \<and>
           (has_length (mentions msg) \<or> has_length (mentionRoles msg) \<longrightarrow>
              (\<exists>els. parseMentions st (formatEmotes body0) ch = Inr els
                    \<and> richBody n = (if els \<noteq> [] then Some els else None))) \<and>
           (\<not> (has_length (mentions msg) \<or> has_length (mentionRoles msg)) \<longrightarrow> richBody n = None)"
proof -
  from assms obtain body0 where b: "getNotificationBody st msg ch = Inr body0"
    by (auto simp: buildNotificationData_def split: sum.splits)
  from buildNotificationData_fields(1,2,3) [OF assms b] b show ?thesis by blast
qed

theorem rich_body_from_untruncated_body_witness:
  "buildNotificationData example_env example_long_message example_channel
      (SwitchChannels (Some ''666666666666666666'') ''555555555555555555'')
     = Inr example_long_notification \<and>
   notification_body example_long_notification
     = limitMessageLength (formatEmotes ''<@111111111111111111> hello world!!'') True \<and>
   map_option Inr (richBody example_long_notification)
     = Some (parseMentions example_env (formatEmotes ''<@111111111111111111> hello world!!'')
               example_channel)"
proof -
  have h: "buildNotificationData example_env example_long_message example_channel
             (SwitchChannels (Some ''666666666666666666'') ''555555555555555555'')
           = Inr example_long_notification"
    by code_simp
  have g: "getNotificationBody example_env example_long_message example_channel
           = Inr ''<@111111111111111111> hello world!!''"
    by code_simp
  have a: "has_length (attachments example_long_message)"
    and m: "has_length (mentions example_long_message)"
    by code_simp+
  have p: "parseMentions example_env (formatEmotes ''<@111111111111111111> hello world!!'')
              example_channel
           = Inr [Text [], Span ''user-111111111111111111'' (Some ''@unknown-user''),
                  Text '' hello world!!'']"
    by code_simp
  from rich_body_from_untruncated_body [OF h] g a m p h show ?thesis by auto
qed

section \<open>Properties of the title\<close>




section \<open>Properties of the relationship notifier\<close>

text \<open>
  Claim C8 says that a notification is produced for every new friend when friend-activity
  notifications are enabled and the user is not ignored. \<open>relationshipAdd\<close> replaces the
  user of the event by \<open>UserStore.getUser(user.id)\<close> and reads the id of the result: when
  the store holds no such user the handler raises, and nothing is shown.
\<close>

theorem relationship_without_user_counterexample:
  "friendActivity example_env_without_users \<and>
   user_id (relationship_user example_relationship) \<notin> set (ignoredUsers example_env_without_users) \<and>
   relationship_type example_relationship = FRIEND \<and>
   RELATIONSHIP_ADD example_env_without_users example_relationship = Threw TypeError"
  by code_simp

text \<open>
  Claim C8, amended. With friend-activity notifications enabled, the other user not
  ignored and held by the user store, a new relationship of type friend leads to a
  notification titled \<open><username> is now your friend\<close>, one of type incoming request to a
  notification titled \<open><username> sent you a friend request\<close>, and one of any other type
  to none; the username is that of the user the store holds.
\<close>

theorem relationship_notifications:
  assumes "friendActivity st" and "user_id (relationship_user r) \<notin> set (ignoredUsers st)"
    and "getUser st (user_id (relationship_user r)) = Some u"
  shows "(relationship_type r = FRIEND \<longrightarrow>
            (\<exists>n. RELATIONSHIP_ADD st r = Shown n
                 \<and> title n = username u @ '' is now your friend'')) \<and>
         (relationship_type r = INCOMING_REQUEST \<longrightarrow>
            (\<exists>n. RELATIONSHIP_ADD st r = Shown n
                 \<and> title n = username u @ '' sent you a friend request'')) \<and>
         (relationship_type r \<noteq> FRIEND \<and> relationship_type r \<noteq> INCOMING_REQUEST \<longrightarrow>
            RELATIONSHIP_ADD st r = NoNotification)"
  using assms
  by (cases "relationship_type r")
     (simp_all add: RELATIONSHIP_ADD_def relationshipAdd_def Let_def)

theorem relationship_notifications_witness:
  "RELATIONSHIP_ADD example_env example_relationship = Shown example_friend_notification \<and>
   RELATIONSHIP_ADD example_env (example_relationship\<lparr>relationship_type := INCOMING_REQUEST\<rparr>)
     = Shown example_request_notification \<and>
   RELATIONSHIP_ADD example_env (example_relationship\<lparr>relationship_type := OTHER_RELATIONSHIP\<rparr>)
     = NoNotification"
proof -
  have f: "friendActivity example_env" by code_simp
  have i: "user_id (relationship_user (example_relationship\<lparr>relationship_type := t\<rparr>))
             \<notin> set (ignoredUsers example_env)" for t
    by (simp add: example_relationship_def example_env_def)
  have g: "getUser example_env
             (user_id (relationship_user (example_relationship\<lparr>relationship_type := t\<rparr>)))
           = Some example_author" for t
    by (simp add: example_relationship_def example_env_def example_author_def)
  have t: "relationship_type (example_relationship\<lparr>relationship_type := t\<rparr>) = t" for t
    by simp
  have e: "example_relationship\<lparr>relationship_type := FRIEND\<rparr> = example_relationship"
    by (simp add: example_relationship_def)
  have "\<exists>n. RELATIONSHIP_ADD example_env example_relationship = Shown n"
    using relationship_notifications [OF f i g, of FRIEND] t [of FRIEND] e by auto
  moreover have "\<exists>n. RELATIONSHIP_ADD example_env
                       (example_relationship\<lparr>relationship_type := INCOMING_REQUEST\<rparr>) = Shown n"
    using relationship_notifications [OF f i g, of INCOMING_REQUEST] by auto
  moreover have "RELATIONSHIP_ADD example_env
                   (example_relationship\<lparr>relationship_type := OTHER_RELATIONSHIP\<rparr>)
                 = NoNotification"
    using relationship_notifications [OF f i g, of OTHER_RELATIONSHIP] by auto
  moreover have "RELATIONSHIP_ADD example_env example_relationship
                   = Shown example_friend_notification"
    by code_simp
  moreover have "RELATIONSHIP_ADD example_env
                   (example_relationship\<lparr>relationship_type := INCOMING_REQUEST\<rparr>)
                   = Shown example_request_notification"
    by code_simp
  ultimately show ?thesis by blast
qed

section \<open>Properties of the click handlers\<close>

lemma handleGuildMessage_onClick:
  assumes "handleGuildMessage st msg = Shown n"
    and "getChannel st (message_channel_id msg) = Some ch"
  shows "onClick n = Some (SwitchChannels (guild_id ch) (channel_id ch))"
proof -
  from assms obtain n0 where
    n0: "buildNotificationData st msg ch (SwitchChannels (guild_id ch) (channel_id ch)) = Inr n0"
    and n: "n = redact st n0"
    by (auto simp: handleGuildMessage_def Let_def split: if_splits sum.splits)
  then obtain body0 where "getNotificationBody st msg ch = Inr body0"
    by (auto simp: buildNotificationData_def split: sum.splits)
  from buildNotificationData_fields(4) [OF n0 this] n
  show ?thesis by (simp add: redact_def)
qed

text \<open>
  Claim C10. The click handlers that navigate by route are those of a guild message, of
  a new friend and of an incoming request. Each is a call of \<open>switchChannels\<close>, which
  first asks the channel store for the target id and does not navigate when the store
  has no such channel, whatever the state of the host at the time of the click. For a
  new friend the target id is the id of that user.
\<close>

theorem route_click_checks_channel:
  "(handleGuildMessage st msg = Shown n \<and> getChannel st (message_channel_id msg) = Some ch \<longrightarrow>
      onClick n = Some (SwitchChannels (guild_id ch) (channel_id ch)) \<and>
      (\<not> hasChannel st' (channel_id ch) \<longrightarrow>
         run_click st' (SwitchChannels (guild_id ch) (channel_id ch)) = NoNavigation)) \<and>
   (relationshipAdd st u0 FRIEND = Shown n \<and> getUser st (user_id u0) = Some u \<longrightarrow>
      onClick n = Some (SwitchChannels None (user_id u)) \<and>
      (\<not> hasChannel st' (user_id u) \<longrightarrow>
         run_click st' (SwitchChannels None (user_id u)) = NoNavigation)) \<and>
   (relationshipAdd st u0 INCOMING_REQUEST = Shown n \<longrightarrow>
      onClick n = Some (SwitchChannels None []) \<and>
      (\<not> hasChannel st' [] \<longrightarrow> run_click st' (SwitchChannels None []) = NoNavigation))"
proof (intro conjI impI)
  assume "handleGuildMessage st msg = Shown n \<and> getChannel st (message_channel_id msg) = Some ch"
  then show "onClick n = Some (SwitchChannels (guild_id ch) (channel_id ch))"
    using handleGuildMessage_onClick by blast
next
  assume "relationshipAdd st u0 FRIEND = Shown n \<and> getUser st (user_id u0) = Some u"
  then show "onClick n = Some (SwitchChannels None (user_id u))"
    by (auto simp: relationshipAdd_def Let_def split: if_splits)
next
  assume "relationshipAdd st u0 INCOMING_REQUEST = Shown n"
  then show "onClick n = Some (SwitchChannels None [])"
    by (auto simp: relationshipAdd_def Let_def split: if_splits option.splits)
qed (simp_all add: switchChannels_def)

theorem route_click_checks_channel_witness:
  "relationshipAdd example_env example_author FRIEND = Shown example_friend_notification \<and>
   onClick example_friend_notification = Some (SwitchChannels None (user_id example_author)) \<and>
   \<not> hasChannel example_env (user_id example_author) \<and>
   run_click example_env (SwitchChannels None (user_id example_author)) = NoNavigation"
proof -
  have a: "relationshipAdd example_env example_author FRIEND = Shown example_friend_notification"
    by code_simp
  have b: "getUser example_env (user_id example_author) = Some example_author"
    by code_simp
  have c: "\<not> hasChannel example_env (user_id example_author)"
    by code_simp
  from route_click_checks_channel
         [of example_env example_message example_friend_notification example_channel example_env
            example_author example_author] a b c
  show ?thesis by blast
qed

end
